theory Spec2Isabelle
  imports Main "HOL-Library.Word"
begin

unbundle bit_operations_syntax

section \<open>Data model of \<^verbatim>\<open>src/dsp/cost_sse2.c\<close>\<close>

text \<open>
  The file holds the SSE2 versions of two functions of the encoder's cost module:
  \<^verbatim>\<open>SetResidualCoeffsSSE2\<close> (lines 25-46), which finds the last non-zero coefficient of a
  block of 16, and \<^verbatim>\<open>GetResidualCostSSE2\<close> (lines 48-108), which sums the bit cost of the
  block. The record type, the tables and two helpers are declared in headers that are not
  part of the file; they are taken here as follows.

  \<^item> \<^verbatim>\<open>VP8Residual\<close>: the fields the two functions touch. \<^verbatim>\<open>coeffs\<close> is a pointer to 16
    \<^verbatim>\<open>int16_t\<close>; the record holds the array it points to. \<^verbatim>\<open>prob\<close> and \<^verbatim>\<open>cost\<close> are pointers
    to tables indexed \<^verbatim>\<open>prob[n][ctx][i]\<close> (bytes) and \<^verbatim>\<open>cost[n][ctx][level]\<close> (16-bit); the
    record holds the tables as functions of the (C \<^verbatim>\<open>int\<close>) indices. A field is named
    \<open>res_x\<close> for the C field \<open>x\<close>.
  \<^item> the constant tables \<^verbatim>\<open>VP8EncBands\<close> (bytes), \<^verbatim>\<open>VP8LevelFixedCosts\<close> (16-bit) and the
    inline function \<^verbatim>\<open>VP8BitCost(bit, proba)\<close> are parameters, collected in \<open>cost_env\<close>.
\<close>

record VP8Residual =
  res_first :: int
  res_last :: int
  res_coeffs :: "16 word list"
  res_prob :: "int \<Rightarrow> int \<Rightarrow> int \<Rightarrow> 8 word"
  res_cost :: "int \<Rightarrow> int \<Rightarrow> int \<Rightarrow> 16 word"

record cost_env =
  VP8EncBands :: "int \<Rightarrow> 8 word"
  VP8LevelFixedCosts :: "int \<Rightarrow> 16 word"
  VP8BitCost :: "int \<Rightarrow> int \<Rightarrow> int"

text \<open>
  What \<^verbatim>\<open>GetResidualCostSSE2\<close> can reach: the residual behind its \<^verbatim>\<open>const\<close> pointer, and its
  three local arrays \<^verbatim>\<open>levels[16]\<close>, \<^verbatim>\<open>ctxs[16]\<close> (bytes) and \<^verbatim>\<open>abs_levels[16]\<close> (16-bit),
  which are not initialised when the function starts.
\<close>

record memory =
  m_res :: VP8Residual
  m_levels :: "8 word list"
  m_ctxs :: "8 word list"
  m_abs_levels :: "16 word list"

text \<open>
  A failed \<^verbatim>\<open>assert\<close> aborts the program. An index outside a 16-element local array is
  undefined behaviour in C; the model stops with \<open>OutOfBounds\<close> there.
\<close>

datatype error = AssertionFailed | OutOfBounds

section \<open>The SSE2 intrinsics used by the file\<close>

text \<open>
  A \<^verbatim>\<open>__m128i\<close> value is its 16 bytes, lowest address first. The \<^verbatim>\<open>epi16\<close> instructions
  see it as 8 little-endian 16-bit lanes.
\<close>

type_synonym m128i = "8 word list"

fun to_epi16 :: "m128i \<Rightarrow> 16 word list" where
  "to_epi16 (lo # hi # bs) = word_cat hi lo # to_epi16 bs"
| "to_epi16 bs = []"

definition of_epi16 :: "16 word list \<Rightarrow> m128i" where
  "of_epi16 ws = concat (map (\<lambda>w. [ucast w, ucast (drop_bit 8 w)]) ws)"

text \<open>\<^verbatim>\<open>_mm_loadu_si128((const __m128i*)p)\<close> for a pointer \<open>p\<close> to \<^verbatim>\<open>int16_t\<close>: the 8 elements at \<open>p\<close>.\<close>

definition mm_loadu_si128 :: "16 word list \<Rightarrow> m128i" where
  "mm_loadu_si128 p = of_epi16 (take 8 p)"

definition mm_setzero_si128 :: m128i where
  "mm_setzero_si128 = replicate 16 0"

definition mm_set1_epi8 :: "8 word \<Rightarrow> m128i" where
  "mm_set1_epi8 b = replicate 16 b"

definition mm_cmpeq_epi16 :: "m128i \<Rightarrow> m128i \<Rightarrow> m128i" where
  "mm_cmpeq_epi16 a b =
     of_epi16 (map2 (\<lambda>x y. if x = y then 0xFFFF else 0) (to_epi16 a) (to_epi16 b))"

text \<open>\<^verbatim>\<open>_mm_movemask_epi8\<close>: bit \<open>i\<close> of the result is the top bit of byte \<open>i\<close>; the result is
  a C \<^verbatim>\<open>int\<close>, kept here as its 32 bits.\<close>

definition mm_movemask_epi8 :: "m128i \<Rightarrow> 32 word" where
  "mm_movemask_epi8 a = horner_sum of_bool 2 (map (\<lambda>b. bit b 7) a)"

definition mm_min_epi16 :: "m128i \<Rightarrow> m128i \<Rightarrow> m128i" where
  "mm_min_epi16 a b = of_epi16 (map2 (\<lambda>x y. if x \<le>s y then x else y) (to_epi16 a) (to_epi16 b))"

definition mm_max_epi16 :: "m128i \<Rightarrow> m128i \<Rightarrow> m128i" where
  "mm_max_epi16 a b = of_epi16 (map2 (\<lambda>x y. if x \<le>s y then y else x) (to_epi16 a) (to_epi16 b))"

definition mm_sub_epi16 :: "m128i \<Rightarrow> m128i \<Rightarrow> m128i" where
  "mm_sub_epi16 a b = of_epi16 (map2 (\<lambda>x y. x - y) (to_epi16 a) (to_epi16 b))"

text \<open>Signed saturation of a 16-bit lane to a byte, as \<^verbatim>\<open>_mm_packs_epi16\<close> does.\<close>

definition saturate_i8 :: "16 word \<Rightarrow> 8 word" where
  "saturate_i8 w = (if 127 < sint w then 0x7F else if sint w < - 128 then 0x80 else ucast w)"

definition mm_packs_epi16 :: "m128i \<Rightarrow> m128i \<Rightarrow> m128i" where
  "mm_packs_epi16 a b = map saturate_i8 (to_epi16 a @ to_epi16 b)"

definition mm_min_epu8 :: "m128i \<Rightarrow> m128i \<Rightarrow> m128i" where
  "mm_min_epu8 a b = map2 min a b"

text \<open>\<^verbatim>\<open>_mm_storeu_si128\<close> into a byte array, and into a 16-bit array: the elements from
  \<open>off\<close> on are replaced by the vector's bytes, or by its lanes.\<close>

definition store_at :: "nat \<Rightarrow> 'a list \<Rightarrow> 'a list \<Rightarrow> 'a list" where
  "store_at off vs arr = take off arr @ vs @ drop (off + length vs) arr"

definition mm_storeu_si128_u8 :: "nat \<Rightarrow> m128i \<Rightarrow> 8 word list \<Rightarrow> 8 word list" where
  "mm_storeu_si128_u8 off v arr = store_at off v arr"

definition mm_storeu_si128_u16 :: "nat \<Rightarrow> m128i \<Rightarrow> 16 word list \<Rightarrow> 16 word list" where
  "mm_storeu_si128_u16 off v arr = store_at off (to_epi16 v) arr"

section \<open>Helpers from the headers\<close>

text \<open>
  Modelled from the spec: \<^verbatim>\<open>BitsLog2Floor\<close> (declared in \<^verbatim>\<open>utils/utils.h\<close>, not in the file) is
  "the bit-position of the most-significant set bit" of a non-zero 32-bit value.
  \<open>highest_bit n w\<close> looks at the bits \<open>n - 1, ..., 0\<close> in this order.
\<close>

fun highest_bit :: "nat \<Rightarrow> 32 word \<Rightarrow> nat" where
  "highest_bit 0 w = 0"
| "highest_bit (Suc i) w = (if bit w i then i else highest_bit i w)"

definition BitsLog2Floor :: "32 word \<Rightarrow> int" where
  "BitsLog2Floor n = int (highest_bit 32 n)"

text \<open>
  Modelled from the spec: \<^verbatim>\<open>MAX_VARIABLE_LEVEL\<close> (a macro of \<^verbatim>\<open>enc/vp8enci.h\<close>) is 67, the
  largest clamped level (the file's own comment at line 78 says \<^verbatim>\<open>[0..67]\<close>).
\<close>

definition MAX_VARIABLE_LEVEL :: "8 word" where
  "MAX_VARIABLE_LEVEL = 67"

section \<open>\<^verbatim>\<open>SetResidualCoeffsSSE2\<close> (lines 25-46)\<close>

definition nonzero_mask :: "16 word list \<Rightarrow> 32 word" where
  "nonzero_mask coeffs =
    (let c0 = mm_loadu_si128 coeffs;
         c1 = mm_loadu_si128 (drop 8 coeffs);
         zero = mm_setzero_si128;
         m0 = mm_cmpeq_epi16 c0 zero;
         m1 = mm_cmpeq_epi16 c1 zero
     in NOT (push_bit 16 (mm_movemask_epi8 m1) OR mm_movemask_epi8 m0))"

definition SetResidualCoeffsSSE2 :: "16 word list \<Rightarrow> VP8Residual \<Rightarrow> error + VP8Residual" where
  "SetResidualCoeffsSSE2 coeffs res =
    (let mask = nonzero_mask coeffs
     in if \<not> (res_first res = 0 \<or> coeffs ! 0 = 0) then Inl AssertionFailed
        else Inr (res\<lparr>res_last := (if mask \<noteq> 0 then drop_bit 1 (BitsLog2Floor mask) else - 1),
                      res_coeffs := coeffs\<rparr>))"

text \<open>
  The scalar equivalent, following the spec's words: a "reverse linear scan stopping at
  first nonzero", \<open>- 1\<close> when there is none.
\<close>

fun reverse_scan :: "16 word list \<Rightarrow> nat \<Rightarrow> int" where
  "reverse_scan cs 0 = - 1"
| "reverse_scan cs (Suc n) = (if cs ! n \<noteq> 0 then int n else reverse_scan cs n)"

definition scalar_detectLast :: "16 word list \<Rightarrow> int" where
  "scalar_detectLast cs = reverse_scan cs 16"

section \<open>\<^verbatim>\<open>GetResidualCostSSE2\<close> (lines 48-108)\<close>

text \<open>Lines 64-85: the clamped levels and contexts, stored into the three local arrays.\<close>

definition precompute :: "memory \<Rightarrow> memory" where
  "precompute m =
    (let zero = mm_setzero_si128;
         kCst2 = mm_set1_epi8 2;
         kCst67 = mm_set1_epi8 MAX_VARIABLE_LEVEL;
         c0 = mm_loadu_si128 (res_coeffs (m_res m));
         c1 = mm_loadu_si128 (drop 8 (res_coeffs (m_res m)));
         D0_m = mm_min_epi16 c0 zero;
         D0_p = mm_max_epi16 c0 zero;
         D1_m = mm_min_epi16 c1 zero;
         D1_p = mm_max_epi16 c1 zero;
         E0 = mm_sub_epi16 D0_p D0_m;
         E1 = mm_sub_epi16 D1_p D1_m;
         F = mm_packs_epi16 E0 E1;
         G = mm_min_epu8 F kCst2;
         H = mm_min_epu8 F kCst67
     in m\<lparr>m_ctxs := mm_storeu_si128_u8 0 G (m_ctxs m),
          m_levels := mm_storeu_si128_u8 0 H (m_levels m),
          m_abs_levels := mm_storeu_si128_u16 8 E1 (mm_storeu_si128_u16 0 E0 (m_abs_levels m))\<rparr>)"

text \<open>What lines 70-75 leave in one 16-bit lane: the maximum of the coefficient and 0, minus
  the minimum of the coefficient and 0.\<close>

definition abs_lane :: "16 word \<Rightarrow> 16 word" where
  "abs_lane c = (if c \<le>s 0 then 0 else c) - (if c \<le>s 0 then c else 0)"

text \<open>
  Lines 86-93: the loop over the positions before \<^verbatim>\<open>res->last\<close>. It returns the values of
  \<open>n\<close>, \<open>cost\<close> and the table row \<open>t\<close> when it ends. \<open>cost\<close> is a C \<^verbatim>\<open>int\<close>: it adds at most
  17 pairs of 16-bit values to the base cost, far below \<open>2 ^ 31\<close>, so it is an \<open>int\<close> here.
\<close>

function cost_loop ::
  "cost_env \<Rightarrow> memory \<Rightarrow> int \<Rightarrow> int \<Rightarrow> (int \<Rightarrow> 16 word) \<Rightarrow> error + (int \<times> int \<times> (int \<Rightarrow> 16 word))"
where
  "cost_loop T m n cost t =
    (if n < res_last (m_res m) then
       if n < 0 \<or> 16 \<le> n then Inl OutOfBounds
       else
         let ctx = uint (m_ctxs m ! nat n);
             level = uint (m_levels m ! nat n);
             flevel = uint (m_abs_levels m ! nat n);
             b = uint (VP8EncBands T (n + 1))
         in cost_loop T m (n + 1)
              (cost + (uint (VP8LevelFixedCosts T flevel) + uint (t level)))
              (res_cost (m_res m) b ctx)
     else Inr (n, cost, t))"
  by pat_completeness auto
termination
  by (relation "measure (\<lambda>(T, m, n, cost, t). nat (res_last (m_res m) - n))") auto

declare cost_loop.simps [simp del]

text \<open>Lines 95-106: the last coefficient, and the "no more coefficients" bit when \<open>n < 15\<close>.\<close>

definition last_coeff_cost ::
  "cost_env \<Rightarrow> memory \<Rightarrow> int \<Rightarrow> int \<Rightarrow> (int \<Rightarrow> 16 word) \<Rightarrow> error + int" where
  "last_coeff_cost T m n cost t =
    (if n < 0 \<or> 16 \<le> n then Inl OutOfBounds
     else
       let level = uint (m_levels m ! nat n);
           flevel = uint (m_abs_levels m ! nat n)
       in if flevel = 0 then Inl AssertionFailed
          else
            let cost = cost + (uint (VP8LevelFixedCosts T flevel) + uint (t level))
            in if n < 15 then
                 let b = uint (VP8EncBands T (n + 1));
                     ctx = uint (m_ctxs m ! nat n);
                     last_p0 = uint (res_prob (m_res m) b ctx 0)
                 in Inr (cost + VP8BitCost T 0 last_p0)
               else Inr cost)"

definition GetResidualCostSSE2 :: "cost_env \<Rightarrow> int \<Rightarrow> memory \<Rightarrow> (error + int) \<times> memory" where
  "GetResidualCostSSE2 T ctx0 m =
    (let res = m_res m;
         n = res_first res;
         p0 = uint (res_prob res n ctx0 0);
         t = res_cost res n ctx0;
         cost = (if ctx0 = 0 then VP8BitCost T 1 p0 else 0)
     in if res_last res < 0 then (Inr (VP8BitCost T 0 p0), m)
        else
          let m' = precompute m
          in (case cost_loop T m' n cost t of
                Inl e \<Rightarrow> Inl e
              | Inr (n', cost', t') \<Rightarrow> last_coeff_cost T m' n' cost' t',
              m'))"

section \<open>The cost in the words of the specification\<close>

text \<open>
  The definitions of this section follow the specification (section 4.2, steps 1 to 8), not
  the code; the theorems below compare them with \<open>GetResidualCostSSE2\<close>.

  \<open>abs_coeff res n\<close> is the true magnitude of the coefficient at position \<open>n\<close>, \<open>band T n\<close>
  the band of position \<open>n\<close>. The context bucket of a magnitude \<open>a\<close> is \<open>min a 2\<close>, its
  clamped level \<open>min a 67\<close>.
\<close>

definition abs_coeff :: "VP8Residual \<Rightarrow> int \<Rightarrow> int" where
  "abs_coeff res n = \<bar>sint (res_coeffs res ! nat n)\<bar>"

definition band :: "cost_env \<Rightarrow> int \<Rightarrow> int" where
  "band T n = uint (VP8EncBands T n)"

text \<open>Steps 5 and 6: what one position adds, given the table row \<open>t\<close> in use there.\<close>

definition level_cost :: "cost_env \<Rightarrow> VP8Residual \<Rightarrow> (int \<Rightarrow> 16 word) \<Rightarrow> int \<Rightarrow> int" where
  "level_cost T res t n =
     uint (VP8LevelFixedCosts T (abs_coeff res n)) + uint (t (min (abs_coeff res n) 67))"

text \<open>Step 5: the row in use at a position \<open>n\<close> after the first one, selected by the band of
  \<open>n\<close> and the context bucket of the coefficient before it. Step 1: the row at \<open>first\<close>.\<close>

definition next_row :: "cost_env \<Rightarrow> VP8Residual \<Rightarrow> int \<Rightarrow> int \<Rightarrow> 16 word" where
  "next_row T res n = res_cost res (band T n) (min (abs_coeff res (n - 1)) 2)"

definition spec_row :: "cost_env \<Rightarrow> VP8Residual \<Rightarrow> int \<Rightarrow> int \<Rightarrow> int \<Rightarrow> 16 word" where
  "spec_row T res ctx0 n =
     (if n = res_first res then res_cost res (band T (res_first res)) ctx0 else next_row T res n)"

text \<open>Step 2, the base cost; step 3, the cost of an empty block; step 7, the terminating
  "no more coefficients" cost.\<close>

definition spec_base_cost :: "cost_env \<Rightarrow> VP8Residual \<Rightarrow> int \<Rightarrow> int" where
  "spec_base_cost T res ctx0 =
     (if ctx0 = 0 then VP8BitCost T 1 (uint (res_prob res (band T (res_first res)) ctx0 0)) else 0)"

definition spec_empty_cost :: "cost_env \<Rightarrow> VP8Residual \<Rightarrow> int \<Rightarrow> int" where
  "spec_empty_cost T res ctx0 = VP8BitCost T 0 (uint (res_prob res (band T (res_first res)) ctx0 0))"

definition spec_end_cost :: "cost_env \<Rightarrow> VP8Residual \<Rightarrow> int" where
  "spec_end_cost T res =
     (if res_last res < 15
      then VP8BitCost T 0 (uint (res_prob res (band T (res_last res + 1))
                                   (min (abs_coeff res (res_last res)) 2) 0))
      else 0)"

text \<open>Steps 5 and 6 together: the positions \<open>first\<close> to \<open>last - 1\<close>, then the position \<open>last\<close>.\<close>

definition spec_levels_cost :: "cost_env \<Rightarrow> VP8Residual \<Rightarrow> int \<Rightarrow> int" where
  "spec_levels_cost T res ctx0 =
     (\<Sum>n\<leftarrow>[res_first res..res_last res - 1]. level_cost T res (spec_row T res ctx0 n) n)
     + level_cost T res (spec_row T res ctx0 (res_last res)) (res_last res)"

text \<open>The tables are monotone when a larger level never costs less, in the fixed table (over
  the magnitudes of 16-bit coefficients) and in every row of the cost table (over the
  clamped levels).\<close>

definition monotone_tables :: "cost_env \<Rightarrow> VP8Residual \<Rightarrow> bool" where
  "monotone_tables T res \<longleftrightarrow>
     (\<forall>a b. 0 \<le> a \<and> a \<le> b \<and> b \<le> 32768 \<longrightarrow> VP8LevelFixedCosts T a \<le> VP8LevelFixedCosts T b) \<and>
     (\<forall>n c a b. 0 \<le> a \<and> a \<le> b \<and> b \<le> 67 \<longrightarrow> res_cost res n c a \<le> res_cost res n c b)"

section \<open>Concrete inputs\<close>

text \<open>
  An environment and tables on which the theorems are evaluated: the band table of the VP8
  format, and tables whose entries differ from one index to the next.
\<close>

definition ex_bands :: "int \<Rightarrow> 8 word" where
  "ex_bands n = (if 0 \<le> n \<and> n \<le> 16
                 then [0, 1, 2, 3, 6, 4, 5, 6, 6, 6, 6, 6, 6, 6, 6, 7, 0] ! nat n else 0)"

definition ex_env :: cost_env where
  "ex_env = \<lparr>VP8EncBands = ex_bands,
             VP8LevelFixedCosts = (\<lambda>l. word_of_int l),
             VP8BitCost = (\<lambda>bit p. if bit = 0 then 256 - p else p)\<rparr>"

definition ex_prob :: "int \<Rightarrow> int \<Rightarrow> int \<Rightarrow> 8 word" where
  "ex_prob n ctx i = word_of_int (100 + 10 * n + ctx)"

definition ex_cost :: "int \<Rightarrow> int \<Rightarrow> int \<Rightarrow> 16 word" where
  "ex_cost n ctx level = word_of_int (1000 * n + 100 * ctx + level)"

definition ex_mem :: "int \<Rightarrow> int \<Rightarrow> 16 word list \<Rightarrow> memory" where
  "ex_mem f l cs =
     \<lparr>m_res = \<lparr>res_first = f, res_last = l, res_coeffs = cs, res_prob = ex_prob, res_cost = ex_cost\<rparr>,
      m_levels = [], m_ctxs = [], m_abs_levels = []\<rparr>"

text \<open>Three more cost tables: one that depends on the context only, one whose rows fall
  with the level, and one whose rows rise with it.\<close>

definition ex_cost_by_ctx :: "int \<Rightarrow> int \<Rightarrow> int \<Rightarrow> 16 word" where
  "ex_cost_by_ctx n ctx level = (if ctx = 1 then 100 else 0)"

definition ex_cost_falling :: "int \<Rightarrow> int \<Rightarrow> int \<Rightarrow> 16 word" where
  "ex_cost_falling n ctx level = word_of_int (200 - 50 * level)"

definition ex_cost_rising :: "int \<Rightarrow> int \<Rightarrow> int \<Rightarrow> 16 word" where
  "ex_cost_rising n ctx level = word_of_int level"

definition ex_mem_cost ::
  "(int \<Rightarrow> int \<Rightarrow> int \<Rightarrow> 16 word) \<Rightarrow> int \<Rightarrow> int \<Rightarrow> 16 word list \<Rightarrow> memory" where
  "ex_mem_cost ct f l cs =
     \<lparr>m_res = \<lparr>res_first = f, res_last = l, res_coeffs = cs, res_prob = ex_prob, res_cost = ct\<rparr>,
      m_levels = [], m_ctxs = [], m_abs_levels = []\<rparr>"

section \<open>Lanes and bytes\<close>

lemma word_cat_bytes: "word_cat (ucast (drop_bit 8 w) :: 8 word) (ucast w :: 8 word) = (w :: 16 word)"
  by (rule bit_word_eqI) (auto simp add: bit_simps)

lemma to_of_epi16 [simp]: "to_epi16 (of_epi16 ws) = ws"
  by (induction ws) (simp_all add: of_epi16_def word_cat_bytes)

lemma length_of_epi16 [simp]: "length (of_epi16 ws) = 2 * length ws"
  by (induction ws) (simp_all add: of_epi16_def)

lemma of_epi16_nth:
  "j < 2 * length ws \<Longrightarrow>
   of_epi16 ws ! j = (if even j then ucast (ws ! (j div 2)) else ucast (drop_bit 8 (ws ! (j div 2))))"
proof (induction ws arbitrary: j)
  case Nil then show ?case by simp
next
  case (Cons w ws)
  have e: "of_epi16 (w # ws) = ucast w # ucast (drop_bit 8 w) # of_epi16 ws"
    by (simp add: of_epi16_def)
  show ?case
  proof (cases j)
    case 0 then show ?thesis by (simp add: e)
  next
    case (Suc k)
    show ?thesis
    proof (cases k)
      case 0 with Suc show ?thesis by (simp add: e)
    next
      case (Suc l)
      with \<open>j = Suc k\<close> Cons.prems have "l < 2 * length ws" by simp
      from Cons.IH [OF this] Suc \<open>j = Suc k\<close> show ?thesis by (simp add: e)
    qed
  qed
qed

section \<open>The scan detector\<close>

lemma to_epi16_zero: "to_epi16 mm_setzero_si128 = replicate 8 0"
  by (simp add: mm_setzero_si128_def numeral_eq_Suc)

lemma map2_replicate_right:
  "length xs \<le> n \<Longrightarrow> map2 f xs (replicate n c) = map (\<lambda>x. f x c) xs"
  by (induction xs arbitrary: n) (auto simp add: Suc_le_eq dest!: less_imp_Suc_add)

lemma cmpeq_zero:
  "mm_cmpeq_epi16 (mm_loadu_si128 p) mm_setzero_si128 =
     of_epi16 (map (\<lambda>x. if x = 0 then 0xFFFF else 0) (take 8 p))"
  by (simp add: mm_cmpeq_epi16_def mm_loadu_si128_def to_epi16_zero map2_replicate_right)

lemma bit_movemask:
  "bit (mm_movemask_epi8 a) j \<longleftrightarrow> j < 32 \<and> j < length a \<and> bit (a ! j) 7"
  by (auto simp add: mm_movemask_epi8_def bit_horner_sum_bit_word_iff)

lemma bit7_cmp_byte:
  "j < 2 * length ws \<Longrightarrow>
   bit (of_epi16 (map (\<lambda>x. if x = 0 then 0xFFFF else (0 :: 16 word)) ws) ! j) 7 \<longleftrightarrow> ws ! (j div 2) = 0"
  by (simp add: of_epi16_nth bit_simps)

lemma bit_nonzero_mask:
  assumes "length cs = 16"
  shows "bit (nonzero_mask cs) j \<longleftrightarrow> j < 32 \<and> cs ! (j div 2) \<noteq> 0"
proof (cases "j < 32")
  case False
  then show ?thesis using bit_imp_le_length [of "nonzero_mask cs" j] by auto
next
  case True
  show ?thesis
  proof (cases "j < 16")
    case True
    then show ?thesis
      using assms \<open>j < 32\<close>
      by (simp add: nonzero_mask_def cmpeq_zero bit_simps bit_movemask bit7_cmp_byte)
  next
    case False
    then have "j - 16 < 16" "(j - 16) div 2 + 8 = j div 2" using \<open>j < 32\<close> by auto
    then show ?thesis
      using assms \<open>j < 32\<close> False
      by (simp add: nonzero_mask_def cmpeq_zero bit_simps bit_movemask bit7_cmp_byte add.commute)
  qed
qed

lemma reverse_scan_cases:
  "(reverse_scan cs n = - 1 \<and> (\<forall>i<n. cs ! i = 0)) \<or>
   (0 \<le> reverse_scan cs n \<and> reverse_scan cs n < int n \<and> cs ! nat (reverse_scan cs n) \<noteq> 0 \<and>
     (\<forall>i<n. reverse_scan cs n < int i \<longrightarrow> cs ! i = 0))"
proof (induction n)
  case 0
  then show ?case by simp
next
  case (Suc n)
  show ?case
  proof (cases "cs ! n = 0")
    case True
    with Suc show ?thesis by (auto simp add: less_Suc_eq)
  next
    case False
    then show ?thesis by (auto simp add: less_Suc_eq)
  qed
qed

lemma highest_bit_pairs:
  assumes "\<And>j. j < 2 * n \<Longrightarrow> bit w j \<longleftrightarrow> cs ! (j div 2) \<noteq> 0"
  shows "(if \<exists>j<2 * n. bit w j then int (highest_bit (2 * n) w) div 2 else - 1) = reverse_scan cs n"
  using assms
proof (induction n)
  case 0
  then show ?case by simp
next
  case (Suc n)
  have b1: "bit w (Suc (2 * n)) \<longleftrightarrow> cs ! n \<noteq> 0" using Suc.prems [of "Suc (2 * n)"] by simp
  have b0: "bit w (2 * n) \<longleftrightarrow> cs ! n \<noteq> 0" using Suc.prems [of "2 * n"] by simp
  have IH: "(if \<exists>j<2 * n. bit w j then int (highest_bit (2 * n) w) div 2 else - 1) = reverse_scan cs n"
    using Suc.prems by (intro Suc.IH) simp
  show ?case
  proof (cases "cs ! n = 0")
    case False
    then have "\<exists>j<2 * Suc n. bit w j" using b0 by (intro exI [of _ "2 * n"]) simp
    with False b1 show ?thesis by simp
  next
    case True
    have "(\<exists>j<2 * Suc n. bit w j) \<longleftrightarrow> (\<exists>j<2 * n. bit w j)"
      using True b0 b1 by (auto simp add: less_Suc_eq)
    with True b0 b1 IH show ?thesis by (auto split: if_splits)
  qed
qed

lemma mask_nonzero_iff: "(w :: 32 word) \<noteq> 0 \<longleftrightarrow> (\<exists>j<2 * 16. bit w j)"
proof
  assume "w \<noteq> 0"
  then obtain j where "bit w j" by (auto simp add: bit_eq_iff)
  moreover from this have "j < 32" using bit_imp_le_length [of w j] by simp
  ultimately show "\<exists>j<2 * 16. bit w j" by auto
next
  assume "\<exists>j<2 * 16. bit w j"
  then show "w \<noteq> 0" by auto
qed

lemma detect_eq_scalar:
  assumes "length cs = 16"
  shows "(if nonzero_mask cs \<noteq> 0 then drop_bit 1 (BitsLog2Floor (nonzero_mask cs)) else - 1)
         = scalar_detectLast cs"
proof -
  have "(if \<exists>j<2 * 16. bit (nonzero_mask cs) j
         then int (highest_bit (2 * 16) (nonzero_mask cs)) div 2 else - 1) = reverse_scan cs 16"
    by (rule highest_bit_pairs) (simp add: bit_nonzero_mask [OF assms])
  then show ?thesis
    by (simp only: mask_nonzero_iff BitsLog2Floor_def scalar_detectLast_def drop_bit_eq_div)
      (auto split: if_splits)
qed

lemma SetResidualCoeffsSSE2_eq:
  assumes "length cs = 16" and "res_first r = 0 \<or> cs ! 0 = 0"
  shows "SetResidualCoeffsSSE2 cs r = Inr (r\<lparr>res_last := scalar_detectLast cs, res_coeffs := cs\<rparr>)"
  using assms(2) detect_eq_scalar [OF assms(1)]
  by (simp add: SetResidualCoeffsSSE2_def Let_def)

text \<open>
  Claim C2. For every array of 16 coefficients that passes the assertion of line 43,
  \<^verbatim>\<open>SetResidualCoeffsSSE2\<close> stores into \<open>res_last\<close> the greatest index whose coefficient is not
  zero, and \<open>- 1\<close> when all 16 are zero; this is the result of the scalar reverse scan on
  every such input. It writes nothing but \<open>res_last\<close> and \<open>res_coeffs\<close>.
\<close>

theorem SetResidualCoeffsSSE2_last:
  assumes "length cs = 16" and "res_first r = 0 \<or> cs ! 0 = 0"
  shows "\<exists>l. SetResidualCoeffsSSE2 cs r = Inr (r\<lparr>res_last := l, res_coeffs := cs\<rparr>) \<and>
             l = scalar_detectLast cs \<and>
             (if \<forall>i<16. cs ! i = 0 then l = - 1
              else 0 \<le> l \<and> l < 16 \<and> cs ! nat l \<noteq> 0 \<and> (\<forall>i<16. l < int i \<longrightarrow> cs ! i = 0))"
proof -
  let ?l = "scalar_detectLast cs"
  have "SetResidualCoeffsSSE2 cs r = Inr (r\<lparr>res_last := ?l, res_coeffs := cs\<rparr>)"
    using assms(2) detect_eq_scalar [OF assms(1)]
    by (simp add: SetResidualCoeffsSSE2_def Let_def)
  moreover have "if \<forall>i<16. cs ! i = 0 then ?l = - 1
     else 0 \<le> ?l \<and> ?l < 16 \<and> cs ! nat ?l \<noteq> 0 \<and> (\<forall>i<16. ?l < int i \<longrightarrow> cs ! i = 0)"
    using reverse_scan_cases [of cs 16] unfolding scalar_detectLast_def by auto
  ultimately show ?thesis by blast
qed

theorem SetResidualCoeffsSSE2_last_witness:
  "SetResidualCoeffsSSE2 [0, 0, 3, 0, - 1, 0, 0, 0, 0, 0, 0, 0, 0, 0, 0, 0]
      \<lparr>res_first = 1, res_last = 9, res_coeffs = [], res_prob = (\<lambda>n c i. 0), res_cost = (\<lambda>n c l. 0)\<rparr>
   = Inr \<lparr>res_first = 1, res_last = 4, res_coeffs = [0, 0, 3, 0, - 1, 0, 0, 0, 0, 0, 0, 0, 0, 0, 0, 0],
          res_prob = (\<lambda>n c i. 0), res_cost = (\<lambda>n c l. 0)\<rparr>"
proof -
  let ?cs = "[0, 0, 3, 0, - 1, 0, 0, 0, 0, 0, 0, 0, 0, 0, 0, 0] :: 16 word list"
  let ?r = "\<lparr>res_first = 1, res_last = 9, res_coeffs = [], res_prob = (\<lambda>n c i. 0), res_cost = (\<lambda>n c l. 0)\<rparr>"
  have h1: "length ?cs = 16" by simp
  have h2: "res_first ?r = 0 \<or> ?cs ! 0 = 0" by simp
  have s: "scalar_detectLast ?cs = 4" by code_simp
  from SetResidualCoeffsSSE2_last [OF h1 h2] obtain l
    where "SetResidualCoeffsSSE2 ?cs ?r = Inr (?r\<lparr>res_last := l, res_coeffs := ?cs\<rparr>)"
      and "l = scalar_detectLast ?cs" by blast
  with s show ?thesis by simp
qed

lemma SetResidualCoeffsSSE2_Inr:
  assumes "length cs = 16" and "SetResidualCoeffsSSE2 cs r = Inr r'"
  shows "r' = r\<lparr>res_last := scalar_detectLast cs, res_coeffs := cs\<rparr>"
  using assms(2) detect_eq_scalar [OF assms(1)]
  by (simp add: SetResidualCoeffsSSE2_def Let_def split: if_splits)

text \<open>
  What the scan detector leaves is what the cost estimator supposes: when \<open>first\<close> is 0 or
  1 and the block is not empty, \<open>first \<le> last \<le> 15\<close> and the coefficient at \<open>last\<close> is not
  zero, so that the assertion of line 98 holds.
\<close>

lemma scan_establishes_precondition:
  assumes "length cs = 16" and "SetResidualCoeffsSSE2 cs r = Inr r'"
    and "res_first r = 0 \<or> res_first r = 1" and "0 \<le> res_last r'"
  shows "length (res_coeffs r') = 16 \<and> res_first r' \<le> res_last r' \<and> res_last r' \<le> 15 \<and>
         res_coeffs r' ! nat (res_last r') \<noteq> 0"
proof -
  have r': "r' = r\<lparr>res_last := scalar_detectLast cs, res_coeffs := cs\<rparr>"
    using assms(1,2) by (rule SetResidualCoeffsSSE2_Inr)
  have a: "res_first r = 0 \<or> cs ! 0 = 0"
    using assms(2) by (simp add: SetResidualCoeffsSSE2_def Let_def split: if_splits)
  let ?l = "scalar_detectLast cs"
  have l0: "0 \<le> ?l" using assms(4) by (simp add: r')
  then have l: "?l \<le> 15" "cs ! nat ?l \<noteq> 0"
    using reverse_scan_cases [of cs 16] unfolding scalar_detectLast_def by auto
  have "res_first r \<le> ?l"
  proof (cases "res_first r = 0")
    case True
    with l0 show ?thesis by simp
  next
    case False
    with a assms(3) have "cs ! 0 = 0" "res_first r = 1" by auto
    with l(2) l0 have "?l \<noteq> 0" by auto
    with l0 \<open>res_first r = 1\<close> show ?thesis by simp
  qed
  with l assms(1) show ?thesis by (simp add: r')
qed

section \<open>The precomputed arrays\<close>

lemma sint16: "sint (w :: 16 word) = (if uint w < 32768 then uint w else uint w - 65536)"
proof -
  have u: "0 \<le> uint w" "uint w < 65536" using uint_bounded [of w] by simp_all
  have b: "bit w 15 \<longleftrightarrow> 32768 \<le> uint w"
  proof -
    have "bit w 15 \<longleftrightarrow> bit (uint w) 15"
      by (simp add: bit_uint_iff)
    then have "bit w 15 \<longleftrightarrow> odd (uint w div 2 ^ 15)"
      by (simp only: bit_iff_odd)
    moreover have "uint w div 32768 = (if 32768 \<le> uint w then 1 else 0)"
      using u by (auto simp add: div_pos_pos_trivial intro!: int_div_pos_eq [where r = "uint w - 32768"])
    ultimately show ?thesis by simp
  qed
  have "sint w = uint w - 65536 * of_bool (bit w 15)"
    by (simp add: sint_uint signed_take_bit_eq_take_bit_minus bit_uint_iff take_bit_eq_mod u)
  with b show ?thesis by simp
qed

lemma uint_abs_lane: "uint (abs_lane c) = \<bar>sint c\<bar>"
proof -
  have u: "0 \<le> uint c" "uint c < 65536" using uint_bounded [of c] by simp_all
  show ?thesis
  proof (cases "c \<le>s 0")
    case False
    then have "0 < sint c" by (simp add: word_sle_eq)
    moreover from this have "sint c = uint c" using u by (simp add: sint16 split: if_splits)
    ultimately show ?thesis using False by (simp add: abs_lane_def)
  next
    case True
    then have s: "sint c \<le> 0" by (simp add: word_sle_eq)
    have "uint (- c) = - uint c mod 65536" by (simp add: uint_word_ariths)
    also have "\<dots> = - sint c"
    proof (cases "uint c = 0")
      case True then show ?thesis by (simp add: sint16)
    next
      case False
      with s u have "32768 \<le> uint c" by (simp add: sint16 split: if_splits)
      then have "sint c = uint c - 65536" by (simp add: sint16)
      moreover have "0 < uint c" using u False by linarith
      then have "- uint c mod 65536 = 65536 - uint c"
        using u by (intro int_mod_pos_eq [where q = "- 1"]) simp_all
      ultimately show ?thesis by simp
    qed
    finally show ?thesis using True s by (simp add: abs_lane_def)
  qed
qed

lemma uint_min_saturate:
  assumes "uint k \<le> 127"
  shows "uint (min (saturate_i8 e) k) = min (uint e) (uint k)"
proof -
  have u: "0 \<le> uint e" "uint e < 65536" using uint_bounded [of e] by simp_all
  have m: "uint (min a k) = min (uint a) (uint k)" for a :: "8 word"
    by (simp add: min_def word_le_def)
  consider "127 < sint e" | "sint e < - 128" | "0 \<le> sint e" "sint e \<le> 127" | "- 128 \<le> sint e" "sint e < 0"
    by linarith
  then show ?thesis
  proof cases
    case 1
    then have "127 < uint e" using u by (simp add: sint16 split: if_splits)
    with 1 assms show ?thesis by (simp add: m saturate_i8_def)
  next
    case 2
    have "32768 \<le> uint e"
    proof (rule ccontr)
      assume "\<not> 32768 \<le> uint e"
      then have "sint e = uint e" by (simp add: sint16)
      with 2 u show False by linarith
    qed
    with 2 assms show ?thesis by (simp add: m saturate_i8_def)
  next
    case 3
    then have "uint e = sint e" using u by (simp add: sint16 split: if_splits)
    with 3 have "uint (ucast e :: 8 word) = uint e"
      by (simp add: unsigned_ucast_eq take_bit_eq_mod)
    with 3 show ?thesis by (simp add: m saturate_i8_def)
  next
    case 4
    then have e: "uint e = sint e + 65536" using u by (simp add: sint16 split: if_splits)
    have "uint (ucast e :: 8 word) = uint e mod 256"
      by (simp add: unsigned_ucast_eq take_bit_eq_mod)
    also have "\<dots> = sint e + 256"
      using 4 e by (intro int_mod_pos_eq [where q = 255]) simp_all
    finally have "uint (ucast e :: 8 word) = sint e + 256" .
    with 4 e assms show ?thesis by (simp add: m saturate_i8_def)
  qed
qed

lemma map2_same: "map2 h (map f xs) (map g xs) = map (\<lambda>x. h (f x) (g x)) xs"
  by (induction xs) simp_all

lemma abs_lanes:
  "to_epi16 (mm_sub_epi16 (mm_max_epi16 (mm_loadu_si128 p) mm_setzero_si128)
                           (mm_min_epi16 (mm_loadu_si128 p) mm_setzero_si128))
   = map abs_lane (take 8 p)"
  by (simp add: mm_sub_epi16_def mm_max_epi16_def mm_min_epi16_def mm_loadu_si128_def
      to_epi16_zero map2_replicate_right map2_same abs_lane_def)

lemma precompute_eq:
  assumes "length (res_coeffs (m_res m)) = 16"
  shows "precompute m = m\<lparr>
      m_ctxs := map (\<lambda>c. min (saturate_i8 (abs_lane c)) 2) (res_coeffs (m_res m)) @ drop 16 (m_ctxs m),
      m_levels := map (\<lambda>c. min (saturate_i8 (abs_lane c)) 67) (res_coeffs (m_res m)) @ drop 16 (m_levels m),
      m_abs_levels := map abs_lane (res_coeffs (m_res m)) @ drop 16 (m_abs_levels m)\<rparr>"
proof -
  let ?cs = "res_coeffs (m_res m)"
  have t: "take 8 ?cs @ take 8 (drop 8 ?cs) = ?cs"
    using assms by (metis append_take_drop_id order.refl take_all_iff length_drop
        add_diff_cancel_left' numeral_Bit0)
  have a: "map abs_lane (take 8 ?cs) @ map abs_lane (take 8 (drop 8 ?cs)) = map abs_lane ?cs"
    by (simp add: t flip: map_append)
  have l: "length (take 8 ?cs) = 8" "length (take 8 (drop 8 ?cs)) = 8"
    using assms by simp_all
  have s16: "take 8 (map abs_lane (take 8 ?cs) @ drop 8 old) @ map abs_lane (take 8 (drop 8 ?cs))
             @ drop 16 (map abs_lane (take 8 ?cs) @ drop 8 old)
           = map abs_lane ?cs @ drop 16 old" for old :: "16 word list"
    using l by (simp add: a [symmetric])
  have j: "map f (take 8 ?cs) @ map f (drop 8 ?cs) @ r = map f ?cs @ r" for f :: "16 word \<Rightarrow> 'b" and r
    by (simp flip: map_append append_assoc)
  show ?thesis
    using assms
    by (simp add: precompute_def Let_def abs_lanes mm_packs_epi16_def mm_min_epu8_def
        mm_set1_epi8_def map2_replicate_right mm_storeu_si128_u8_def mm_storeu_si128_u16_def
        store_at_def a s16 MAX_VARIABLE_LEVEL_def j comp_def)
qed

lemma precompute_nth:
  assumes "length (res_coeffs (m_res m)) = 16" and "i < 16"
  shows "uint (m_abs_levels (precompute m) ! i) = \<bar>sint (res_coeffs (m_res m) ! i)\<bar> \<and>
         uint (m_ctxs (precompute m) ! i) = min \<bar>sint (res_coeffs (m_res m) ! i)\<bar> 2 \<and>
         uint (m_levels (precompute m) ! i) = min \<bar>sint (res_coeffs (m_res m) ! i)\<bar> 67"
  using assms
  by (simp add: precompute_eq nth_append uint_abs_lane uint_min_saturate)

lemma precompute_res [simp]: "m_res (precompute m) = m_res m"
  by (simp add: precompute_def Let_def)

lemma precompute_reads:
  assumes "length (res_coeffs (m_res m)) = 16" and "0 \<le> n" and "n < 16"
  shows "uint (m_abs_levels (precompute m) ! nat n) = abs_coeff (m_res m) n"
    and "uint (m_ctxs (precompute m) ! nat n) = min (abs_coeff (m_res m) n) 2"
    and "uint (m_levels (precompute m) ! nat n) = min (abs_coeff (m_res m) n) 67"
  using precompute_nth [OF assms(1), of "nat n"] assms(2,3)
  by (simp_all add: abs_coeff_def)

section \<open>The cost loop in closed form\<close>

lemma cost_loop_closed:
  assumes "length (res_coeffs (m_res m)) = 16" and "0 \<le> n" and "n \<le> res_last (m_res m)"
    and "res_last (m_res m) \<le> 16"
  shows "cost_loop T (precompute m) n c t =
     Inr (res_last (m_res m),
          c + (\<Sum>k\<leftarrow>[n..res_last (m_res m) - 1].
                 level_cost T (m_res m) (if k = n then t else next_row T (m_res m) k) k),
          if res_last (m_res m) = n then t else next_row T (m_res m) (res_last (m_res m)))"
  using assms(2,3)
proof (induction "nat (res_last (m_res m) - n)" arbitrary: n c t)
  case 0
  then have "n = res_last (m_res m)" by simp
  then show ?case by (subst cost_loop.simps) simp
next
  case (Suc d)
  let ?res = "m_res m"
  let ?last = "res_last ?res"
  from Suc.hyps(2) have lt: "n < ?last" by simp
  with assms(4) Suc.prems have n16: "n < 16" by simp
  have d: "d = nat (?last - (n + 1))" using Suc.hyps(2) by simp
  have step: "cost_loop T (precompute m) n c t =
      cost_loop T (precompute m) (n + 1) (c + level_cost T ?res t n) (next_row T ?res (n + 1))"
    using lt n16 Suc.prems(1)
    by (subst cost_loop.simps)
       (simp add: Let_def precompute_reads [OF assms(1)] level_cost_def next_row_def band_def)
  have IH: "cost_loop T (precompute m) (n + 1) (c + level_cost T ?res t n) (next_row T ?res (n + 1)) =
     Inr (?last,
          (c + level_cost T ?res t n) + (\<Sum>k\<leftarrow>[n + 1..?last - 1].
                 level_cost T ?res (if k = n + 1 then next_row T ?res (n + 1) else next_row T ?res k) k),
          if ?last = n + 1 then next_row T ?res (n + 1) else next_row T ?res ?last)"
    using Suc.prems lt by (intro Suc.hyps(1) [OF d]) simp_all
  have sum: "(\<Sum>k\<leftarrow>[n + 1..?last - 1].
                 level_cost T ?res (if k = n + 1 then next_row T ?res (n + 1) else next_row T ?res k) k)
           = (\<Sum>k\<leftarrow>[n + 1..?last - 1].
                 level_cost T ?res (if k = n then t else next_row T ?res k) k)"
    by (intro arg_cong [where f = sum_list] map_cong) auto
  have u: "[n..?last - 1] = n # [n + 1..?last - 1]"
    using lt by (simp add: upto_rec1)
  show ?case
    using lt by (simp add: step IH sum u)
qed

lemma abs_coeff_zero_iff: "abs_coeff res n = 0 \<longleftrightarrow> res_coeffs res ! nat n = 0"
  by (simp add: abs_coeff_def signed_eq_0_iff)

lemma last_coeff_cost_closed:
  assumes "length (res_coeffs (m_res m)) = 16" and "0 \<le> n" and "n \<le> 15"
    and "res_coeffs (m_res m) ! nat n \<noteq> 0"
  shows "last_coeff_cost T (precompute m) n c t =
     Inr (c + level_cost T (m_res m) t n +
          (if n < 15
           then VP8BitCost T 0 (uint (res_prob (m_res m) (band T (n + 1)) (min (abs_coeff (m_res m) n) 2) 0))
           else 0))"
  using assms(2,3,4)
  by (simp add: last_coeff_cost_def Let_def precompute_reads [OF assms(1)] level_cost_def band_def
      abs_coeff_zero_iff)

lemma GetResidualCostSSE2_value:
  assumes "length (res_coeffs (m_res m)) = 16"
    and "0 \<le> res_first (m_res m)" and "res_first (m_res m) \<le> res_last (m_res m)"
    and "res_last (m_res m) \<le> 15"
    and "res_coeffs (m_res m) ! nat (res_last (m_res m)) \<noteq> 0"
  shows "fst (GetResidualCostSSE2 T ctx0 m) =
     Inr ((if ctx0 = 0 then VP8BitCost T 1 (uint (res_prob (m_res m) (res_first (m_res m)) ctx0 0)) else 0) +
          (\<Sum>k\<leftarrow>[res_first (m_res m)..res_last (m_res m)].
              level_cost T (m_res m)
                (if k = res_first (m_res m) then res_cost (m_res m) (res_first (m_res m)) ctx0
                 else next_row T (m_res m) k) k) +
          (if res_last (m_res m) < 15
           then VP8BitCost T 0 (uint (res_prob (m_res m) (band T (res_last (m_res m) + 1))
                                  (min (abs_coeff (m_res m) (res_last (m_res m))) 2) 0))
           else 0))"
proof -
  let ?res = "m_res m"
  let ?first = "res_first ?res"
  let ?last = "res_last ?res"
  have l16: "?last \<le> 16" and l0: "0 \<le> ?last" and nl: "\<not> ?last < 0"
    using assms by simp_all
  have u: "[?first..?last] = [?first..?last - 1] @ [?last]"
    using assms(3) by (rule upto_rec2)
  show ?thesis
    using nl
    by (simp add: GetResidualCostSSE2_def Let_def
        cost_loop_closed [OF assms(1) assms(2) assms(3) l16]
        last_coeff_cost_closed [OF assms(1) l0 assms(4) assms(5)] u)
qed

section \<open>The cost estimator\<close>

lemma GetResidualCostSSE2_spec:
  assumes "length (res_coeffs (m_res m)) = 16"
    and "0 \<le> res_first (m_res m)" and "res_first (m_res m) \<le> res_last (m_res m)"
    and "res_last (m_res m) \<le> 15"
    and "res_coeffs (m_res m) ! nat (res_last (m_res m)) \<noteq> 0"
    and "band T (res_first (m_res m)) = res_first (m_res m)"
  shows "fst (GetResidualCostSSE2 T ctx0 m) =
     Inr (spec_base_cost T (m_res m) ctx0 + spec_levels_cost T (m_res m) ctx0 + spec_end_cost T (m_res m))"
proof -
  have u: "[res_first (m_res m)..res_last (m_res m)] =
           [res_first (m_res m)..res_last (m_res m) - 1] @ [res_last (m_res m)]"
    using assms(3) by (rule upto_rec2)
  show ?thesis
    unfolding GetResidualCostSSE2_value [OF assms(1-5)]
    by (simp add: spec_base_cost_def spec_levels_cost_def spec_end_cost_def spec_row_def assms(6) u
        cong: if_cong)
qed

lemma band_first:
  assumes "res_first res = 0 \<or> res_first res = 1"
    and "VP8EncBands T 0 = 0" and "VP8EncBands T 1 = 1"
  shows "band T (res_first res) = res_first res"
  using assms by (auto simp add: band_def)

text \<open>
  Claim C1, as amended. For a block of 16 coefficients with \<open>first\<close> 0 or 1,
  \<open>first \<le> last \<le> 15\<close> and a non-zero coefficient at \<open>last\<close> (what the scan detector
  leaves, and what the assertion of line 98 checks), and a band table that maps 0 to 0 and
  1 to 1, \<^verbatim>\<open>GetResidualCostSSE2\<close> returns the base cost of step 2, plus the level costs of the
  positions \<open>first\<close> to \<open>last - 1\<close> and of the position \<open>last\<close>, each with the table row
  selected by the band of the position and the context bucket of the coefficient before
  it, plus the terminating cost of step 7 when \<open>last < 15\<close>. The context and the clamped
  level of a position are functions of its own coefficient only.
\<close>

theorem GetResidualCostSSE2_sum:
  assumes "length (res_coeffs (m_res m)) = 16"
    and "res_first (m_res m) = 0 \<or> res_first (m_res m) = 1"
    and "res_first (m_res m) \<le> res_last (m_res m)"
    and "res_last (m_res m) \<le> 15"
    and "res_coeffs (m_res m) ! nat (res_last (m_res m)) \<noteq> 0"
    and "VP8EncBands T 0 = 0" and "VP8EncBands T 1 = 1"
  shows "fst (GetResidualCostSSE2 T ctx0 m) =
     Inr (spec_base_cost T (m_res m) ctx0 + spec_levels_cost T (m_res m) ctx0 + spec_end_cost T (m_res m))"
proof -
  have "0 \<le> res_first (m_res m)" using assms(2) by auto
  then show ?thesis
    using assms band_first [OF assms(2,6,7)] by (intro GetResidualCostSSE2_spec) simp_all
qed

theorem GetResidualCostSSE2_sum_witness:
  "fst (GetResidualCostSSE2 ex_env 0 (ex_mem 1 4 [0, 2, - 1, 0, 70, 0, 0, 0, 0, 0, 0, 0, 0, 0, 0, 0]))
     = Inr (110 + 12443 + 114)"
proof -
  let ?m = "ex_mem 1 4 [0, 2, - 1, 0, 70, 0, 0, 0, 0, 0, 0, 0, 0, 0, 0, 0]"
  have h: "length (res_coeffs (m_res ?m)) = 16"
    "res_first (m_res ?m) = 0 \<or> res_first (m_res ?m) = 1"
    "res_first (m_res ?m) \<le> res_last (m_res ?m)"
    "res_last (m_res ?m) \<le> 15"
    "res_coeffs (m_res ?m) ! nat (res_last (m_res ?m)) \<noteq> 0"
    "VP8EncBands ex_env 0 = 0" "VP8EncBands ex_env 1 = 1"
    by (simp_all add: ex_mem_def ex_env_def ex_bands_def)
  have v: "spec_base_cost ex_env (m_res ?m) 0 = 110"
    "spec_levels_cost ex_env (m_res ?m) 0 = 12443"
    "spec_end_cost ex_env (m_res ?m) = 114"
    by code_simp+
  show ?thesis
    using GetResidualCostSSE2_sum [OF h, of 0] by (simp only: v)
qed

text \<open>
  Claim C1 as it is written leaves the terminating cost out of the returned value. On
  the block \<open>[3, 0, ..., 0]\<close> with \<open>first = 0\<close>, \<open>last = 0\<close> and \<open>ctx0 = 0\<close> the code returns
  250, the base cost plus the level costs are 106, and the terminating cost is 144.
\<close>

theorem GetResidualCostSSE2_sum_counterexample:
  "fst (GetResidualCostSSE2 ex_env 0 (ex_mem 0 0 [3, 0, 0, 0, 0, 0, 0, 0, 0, 0, 0, 0, 0, 0, 0, 0])) = Inr 250
   \<and> spec_base_cost ex_env (m_res (ex_mem 0 0 [3, 0, 0, 0, 0, 0, 0, 0, 0, 0, 0, 0, 0, 0, 0, 0])) 0
     + spec_levels_cost ex_env (m_res (ex_mem 0 0 [3, 0, 0, 0, 0, 0, 0, 0, 0, 0, 0, 0, 0, 0, 0, 0])) 0
     = 106"
  by code_simp

text \<open>
  Claim C3 fails for positions whose band is not the position itself. With the band table
  of the format, position 5 is in band 4: for \<open>first = 5\<close>, \<open>ctx0 = 1\<close> and an empty block
  the code returns the cost for \<open>prob[5][1]\<close>, which is 105 on the example tables, and not
  the cost for \<open>prob[4][1]\<close>, the entry of the band of \<open>first\<close>, which is 115.
\<close>

theorem GetResidualCostSSE2_empty_counterexample:
  "fst (GetResidualCostSSE2 ex_env 1 (ex_mem 5 (- 1) [0, 0, 0, 0, 0, 0, 0, 0, 0, 0, 0, 0, 0, 0, 0, 0])) = Inr 105
   \<and> band ex_env (res_first (m_res (ex_mem 5 (- 1) [0, 0, 0, 0, 0, 0, 0, 0, 0, 0, 0, 0, 0, 0, 0, 0]))) = 4
   \<and> spec_empty_cost ex_env (m_res (ex_mem 5 (- 1) [0, 0, 0, 0, 0, 0, 0, 0, 0, 0, 0, 0, 0, 0, 0, 0])) 1 = 115"
  by code_simp

text \<open>
  Claim C3, as amended. For every residual with \<open>last < 0\<close> and every \<open>ctx0\<close>,
  \<^verbatim>\<open>GetResidualCostSSE2\<close> returns exactly the bit cost of "no nonzero coefficient" for the
  probability \<open>prob[first][ctx0][0]\<close>, whose row is selected by the position \<open>first\<close>
  itself; the base cost of step 2 is not part of it, and nothing is stored. Whenever the
  band of \<open>first\<close> is \<open>first\<close>, as it is for 0 and 1, this is the cost for the probability of
  the band of \<open>first\<close> and the context \<open>ctx0\<close>.
\<close>

theorem GetResidualCostSSE2_empty:
  assumes "res_last (m_res m) < 0"
  shows "GetResidualCostSSE2 T ctx0 m =
           (Inr (VP8BitCost T 0 (uint (res_prob (m_res m) (res_first (m_res m)) ctx0 0))), m) \<and>
         (band T (res_first (m_res m)) = res_first (m_res m) \<longrightarrow>
            fst (GetResidualCostSSE2 T ctx0 m) = Inr (spec_empty_cost T (m_res m) ctx0))"
  using assms by (simp add: GetResidualCostSSE2_def Let_def spec_empty_cost_def)

theorem GetResidualCostSSE2_empty_witness:
  "GetResidualCostSSE2 ex_env 0 (ex_mem 1 (- 1) [0, 0, 0, 0, 0, 0, 0, 0, 0, 0, 0, 0, 0, 0, 0, 0]) =
     (Inr 146, ex_mem 1 (- 1) [0, 0, 0, 0, 0, 0, 0, 0, 0, 0, 0, 0, 0, 0, 0, 0]) \<and>
   spec_empty_cost ex_env (m_res (ex_mem 1 (- 1) [0, 0, 0, 0, 0, 0, 0, 0, 0, 0, 0, 0, 0, 0, 0, 0])) 0 = 146 \<and>
   fst (GetResidualCostSSE2 ex_env 0 (ex_mem 3 (- 1) [0, 0, 0, 0, 0, 0, 0, 0, 0, 0, 0, 0, 0, 0, 0, 0])) = Inr 126"
proof -
  let ?m = "ex_mem 1 (- 1) [0, 0, 0, 0, 0, 0, 0, 0, 0, 0, 0, 0, 0, 0, 0, 0]"
  let ?n = "ex_mem 3 (- 1) [0, 0, 0, 0, 0, 0, 0, 0, 0, 0, 0, 0, 0, 0, 0, 0]"
  have h: "res_last (m_res ?m) < 0" and hn: "res_last (m_res ?n) < 0"
    by (simp_all add: ex_mem_def)
  have b: "band ex_env (res_first (m_res ?m)) = res_first (m_res ?m)" by code_simp
  have v: "VP8BitCost ex_env 0 (uint (res_prob (m_res ?m) (res_first (m_res ?m)) 0 0)) = 146"
    "VP8BitCost ex_env 0 (uint (res_prob (m_res ?n) (res_first (m_res ?n)) 0 0)) = 126"
    by code_simp+
  from GetResidualCostSSE2_empty [OF h, of ex_env 0] b
  have 1: "GetResidualCostSSE2 ex_env 0 ?m = (Inr 146, ?m)"
    and 2: "fst (GetResidualCostSSE2 ex_env 0 ?m) = Inr (spec_empty_cost ex_env (m_res ?m) 0)"
    unfolding v by blast+
  from 1 2 have 3: "spec_empty_cost ex_env (m_res ?m) 0 = 146" by simp
  from GetResidualCostSSE2_empty [OF hn, of ex_env 0]
  have 4: "fst (GetResidualCostSSE2 ex_env 0 ?n) = Inr 126"
    unfolding v by simp
  from 1 3 4 show ?thesis by (intro conjI)
qed

text \<open>
  Claim C9. For every coefficient \<open>c\<close> of a block of 16, lines 64-85 store \<open>\<bar>c\<bar>\<close> into
  \<open>abs_levels\<close>, \<open>min \<bar>c\<bar> 2\<close> into \<open>ctxs\<close> and \<open>min \<bar>c\<bar> 67\<close> into \<open>levels\<close>, at the
  position of \<open>c\<close>. This holds on the whole 16-bit range: for \<open>c = - 32768\<close> the unsigned
  16-bit entry of \<open>abs_levels\<close> is 32768, and the saturated byte 128 is still clamped to 2
  and to 67.
\<close>

theorem precompute_exact:
  assumes "length (res_coeffs (m_res m)) = 16" and "i < 16"
  shows "uint (m_abs_levels (precompute m) ! i) = \<bar>sint (res_coeffs (m_res m) ! i)\<bar> \<and>
         uint (m_ctxs (precompute m) ! i) = min \<bar>sint (res_coeffs (m_res m) ! i)\<bar> 2 \<and>
         uint (m_levels (precompute m) ! i) = min \<bar>sint (res_coeffs (m_res m) ! i)\<bar> 67"
  using assms by (rule precompute_nth)

theorem precompute_exact_witness:
  "uint (m_abs_levels (precompute (ex_mem 0 4 [0, 2, - 1, 0, - 70, 0, 0, 0, 0, 0, 0, 0, 0, 0, 0, 0])) ! 4) = 70 \<and>
   uint (m_ctxs (precompute (ex_mem 0 4 [0, 2, - 1, 0, - 70, 0, 0, 0, 0, 0, 0, 0, 0, 0, 0, 0])) ! 4) = 2 \<and>
   uint (m_levels (precompute (ex_mem 0 4 [0, 2, - 1, 0, - 70, 0, 0, 0, 0, 0, 0, 0, 0, 0, 0, 0])) ! 4) = 67"
proof -
  let ?m = "ex_mem 0 4 [0, 2, - 1, 0, - 70, 0, 0, 0, 0, 0, 0, 0, 0, 0, 0, 0]"
  have h: "length (res_coeffs (m_res ?m)) = 16" "(4 :: nat) < 16"
    by (simp_all add: ex_mem_def)
  have v: "\<bar>sint (res_coeffs (m_res ?m) ! 4)\<bar> = 70"
    by (simp add: ex_mem_def)
  show ?thesis
    using precompute_exact [OF h] by (simp only: v) simp
qed

text \<open>
  Claim C10. A call of \<^verbatim>\<open>SetResidualCoeffsSSE2\<close> that returns leaves a record that differs
  from the one it was given in \<open>res_last\<close> and \<open>res_coeffs\<close> only: \<open>res_first\<close> and the two
  tables are as before. \<^verbatim>\<open>GetResidualCostSSE2\<close> leaves the record, with its coefficients and
  tables, as it was; of the memory it can reach it changes its three local arrays only.
\<close>

theorem frame_effects:
  "(SetResidualCoeffsSSE2 cs r = Inr r' \<longrightarrow> r' = r\<lparr>res_last := res_last r', res_coeffs := cs\<rparr>) \<and>
   m_res (snd (GetResidualCostSSE2 T ctx0 m)) = m_res m"
  by (auto simp add: SetResidualCoeffsSSE2_def GetResidualCostSSE2_def Let_def split: if_splits)

theorem frame_effects_witness:
  "SetResidualCoeffsSSE2 [0, 0, 3, 0, 0, 0, 0, 0, 0, 0, 0, 0, 0, 0, 0, 0] (m_res (ex_mem 1 9 []))
     = Inr (m_res (ex_mem 1 2 [0, 0, 3, 0, 0, 0, 0, 0, 0, 0, 0, 0, 0, 0, 0, 0])) \<and>
   m_res (ex_mem 1 2 [0, 0, 3, 0, 0, 0, 0, 0, 0, 0, 0, 0, 0, 0, 0, 0])
     = (m_res (ex_mem 1 9 []))\<lparr>res_last := 2, res_coeffs := [0, 0, 3, 0, 0, 0, 0, 0, 0, 0, 0, 0, 0, 0, 0, 0]\<rparr>"
proof -
  let ?cs = "[0, 0, 3, 0, 0, 0, 0, 0, 0, 0, 0, 0, 0, 0, 0, 0] :: 16 word list"
  have d: "scalar_detectLast ?cs = 2" by code_simp
  have s: "SetResidualCoeffsSSE2 ?cs (m_res (ex_mem 1 9 [])) = Inr (m_res (ex_mem 1 2 ?cs))"
    by (subst SetResidualCoeffsSSE2_eq) (simp_all add: d ex_mem_def)
  from frame_effects [of ?cs "m_res (ex_mem 1 9 [])" "m_res (ex_mem 1 2 ?cs)"] s
  have "m_res (ex_mem 1 2 ?cs) = (m_res (ex_mem 1 9 []))\<lparr>res_last := res_last (m_res (ex_mem 1 2 ?cs)), res_coeffs := ?cs\<rparr>"
    by blast
  with s show ?thesis by (simp add: ex_mem_def)
qed

lemma cost_loop_add:
  "cost_loop T m n (d + c) t =
     (case cost_loop T m n c t of Inl e \<Rightarrow> Inl e | Inr (n', c', t') \<Rightarrow> Inr (n', d + c', t'))"
proof (induction T m n c t rule: cost_loop.induct)
  case (1 T m n cost t)
  show ?case
  proof (cases "n < res_last (m_res m) \<and> \<not> (n < 0 \<or> 16 \<le> n)")
    case True
    then show ?thesis
      using "1.IH" [OF _ _ refl refl refl refl]
      by (subst (1 2) cost_loop.simps) (simp add: Let_def add.assoc)
  next
    case False
    then show ?thesis
      by (subst (1 2) cost_loop.simps) auto
  qed
qed

lemma last_coeff_cost_add:
  "last_coeff_cost T m n (d + c) t =
     (case last_coeff_cost T m n c t of Inl e \<Rightarrow> Inl e | Inr v \<Rightarrow> Inr (d + v))"
  by (simp add: last_coeff_cost_def Let_def)

text \<open>
  Claim C4. For every residual with \<open>last \<ge> 0\<close>, the value returned by
  \<^verbatim>\<open>GetResidualCostSSE2\<close> is a base term plus what lines 86-106 add up when they start from
  0 (and the call fails exactly when they do). The base term is \<^verbatim>\<open>VP8BitCost(1, p0)\<close> when
  \<open>ctx0 = 0\<close>, and 0 for every other \<open>ctx0\<close>.
\<close>

theorem GetResidualCostSSE2_base_term:
  assumes "0 \<le> res_last (m_res m)"
  shows "fst (GetResidualCostSSE2 T ctx0 m) =
    (case cost_loop T (precompute m) (res_first (m_res m)) 0
            (res_cost (m_res m) (res_first (m_res m)) ctx0) of
       Inl e \<Rightarrow> Inl e
     | Inr (n, c, t) \<Rightarrow>
        (case last_coeff_cost T (precompute m) n c t of
           Inl e \<Rightarrow> Inl e
         | Inr v \<Rightarrow>
             Inr ((if ctx0 = 0
                   then VP8BitCost T 1 (uint (res_prob (m_res m) (res_first (m_res m)) ctx0 0))
                   else 0) + v)))"
proof -
  let ?b = "if ctx0 = 0 then VP8BitCost T 1 (uint (res_prob (m_res m) (res_first (m_res m)) ctx0 0)) else 0"
  have "fst (GetResidualCostSSE2 T ctx0 m) =
     (case cost_loop T (precompute m) (res_first (m_res m)) (?b + 0)
            (res_cost (m_res m) (res_first (m_res m)) ctx0) of
        Inl e \<Rightarrow> Inl e
      | Inr (n, c, t) \<Rightarrow> last_coeff_cost T (precompute m) n c t)"
    using assms by (simp add: GetResidualCostSSE2_def Let_def)
  then show ?thesis
    unfolding cost_loop_add
    by (auto simp add: last_coeff_cost_add split: sum.splits)
qed

theorem GetResidualCostSSE2_base_term_witness:
  "0 \<le> res_last (m_res (ex_mem 1 4 [0, 2, - 1, 0, 70, 0, 0, 0, 0, 0, 0, 0, 0, 0, 0, 0])) \<and>
   VP8BitCost ex_env 1 (uint (res_prob (m_res (ex_mem 1 4 [0, 2, - 1, 0, 70, 0, 0, 0, 0, 0, 0, 0, 0, 0, 0, 0]))
       (res_first (m_res (ex_mem 1 4 [0, 2, - 1, 0, 70, 0, 0, 0, 0, 0, 0, 0, 0, 0, 0, 0]))) 0 0)) = 110 \<and>
   Inr 12667 =
    (case cost_loop ex_env (precompute (ex_mem 1 4 [0, 2, - 1, 0, 70, 0, 0, 0, 0, 0, 0, 0, 0, 0, 0, 0]))
            (res_first (m_res (ex_mem 1 4 [0, 2, - 1, 0, 70, 0, 0, 0, 0, 0, 0, 0, 0, 0, 0, 0]))) 0
            (res_cost (m_res (ex_mem 1 4 [0, 2, - 1, 0, 70, 0, 0, 0, 0, 0, 0, 0, 0, 0, 0, 0]))
               (res_first (m_res (ex_mem 1 4 [0, 2, - 1, 0, 70, 0, 0, 0, 0, 0, 0, 0, 0, 0, 0, 0]))) 0) of
       Inl e \<Rightarrow> Inl e
     | Inr (n, c, t) \<Rightarrow>
        (case last_coeff_cost ex_env (precompute (ex_mem 1 4 [0, 2, - 1, 0, 70, 0, 0, 0, 0, 0, 0, 0, 0, 0, 0, 0])) n c t of
           Inl e \<Rightarrow> Inl e
         | Inr v \<Rightarrow>
             Inr ((if (0 :: int) = 0
                   then VP8BitCost ex_env 1 (uint (res_prob (m_res (ex_mem 1 4 [0, 2, - 1, 0, 70, 0, 0, 0, 0, 0, 0, 0, 0, 0, 0, 0]))
                          (res_first (m_res (ex_mem 1 4 [0, 2, - 1, 0, 70, 0, 0, 0, 0, 0, 0, 0, 0, 0, 0, 0]))) 0 0))
                   else 0) + v)))"
proof -
  let ?m = "ex_mem 1 4 [0, 2, - 1, 0, 70, 0, 0, 0, 0, 0, 0, 0, 0, 0, 0, 0]"
  have h: "0 \<le> res_last (m_res ?m)" by (simp add: ex_mem_def)
  have v: "fst (GetResidualCostSSE2 ex_env 0 ?m) = Inr 12667" by code_simp
  have b: "VP8BitCost ex_env 1 (uint (res_prob (m_res ?m) (res_first (m_res ?m)) 0 0)) = 110"
    by code_simp
  from GetResidualCostSSE2_base_term [OF h, of ex_env 0] v h b show ?thesis
    by (intro conjI) (assumption, assumption, erule subst, assumption)
qed

text \<open>
  Claim C5. For a block of 16 coefficients with \<open>0 \<le> first \<le> last \<le> 15\<close> and a non-zero
  coefficient at \<open>last\<close>, the loop of lines 86-93 ends at \<open>n = last\<close> with a cost \<open>c\<close> and a
  row \<open>t\<close>, and the returned value is \<open>c\<close>, plus the level cost of the coefficient at
  \<open>last\<close>, plus, when \<open>last < 15\<close>, one terminating term: the cost of the bit 0 for the
  probability of the band of \<open>last + 1\<close> and the context bucket of the coefficient at
  \<open>last\<close>. When \<open>last = 15\<close> there is no such term.
\<close>

theorem GetResidualCostSSE2_end_term:
  assumes "length (res_coeffs (m_res m)) = 16"
    and "0 \<le> res_first (m_res m)" and "res_first (m_res m) \<le> res_last (m_res m)"
    and "res_last (m_res m) \<le> 15"
    and "res_coeffs (m_res m) ! nat (res_last (m_res m)) \<noteq> 0"
  shows "\<exists>c t.
    cost_loop T (precompute m) (res_first (m_res m))
      (if ctx0 = 0 then VP8BitCost T 1 (uint (res_prob (m_res m) (res_first (m_res m)) ctx0 0)) else 0)
      (res_cost (m_res m) (res_first (m_res m)) ctx0) = Inr (res_last (m_res m), c, t) \<and>
    fst (GetResidualCostSSE2 T ctx0 m) =
      Inr (c + level_cost T (m_res m) t (res_last (m_res m)) +
           (if res_last (m_res m) < 15
            then VP8BitCost T 0 (uint (res_prob (m_res m) (band T (res_last (m_res m) + 1))
                                   (min (abs_coeff (m_res m) (res_last (m_res m))) 2) 0))
            else 0))"
proof -
  let ?res = "m_res m"
  have l16: "res_last ?res \<le> 16" and l0: "0 \<le> res_last ?res" and nl: "\<not> res_last ?res < 0"
    using assms by simp_all
  show ?thesis
    using nl
    by (simp add: GetResidualCostSSE2_def Let_def
        cost_loop_closed [OF assms(1) assms(2) assms(3) l16]
        last_coeff_cost_closed [OF assms(1) l0 assms(4) assms(5)])
qed

theorem GetResidualCostSSE2_end_term_witness:
  "fst (GetResidualCostSSE2 ex_env 0 (ex_mem 0 14 [3, 0, 0, 0, 0, 0, 0, 0, 0, 0, 0, 0, 0, 0, 1, 0])) = Inr 69393 \<and>
   fst (GetResidualCostSSE2 ex_env 0 (ex_mem 0 15 [3, 0, 0, 0, 0, 0, 0, 0, 0, 0, 0, 0, 0, 0, 0, 1])) = Inr 76308 \<and>
   (\<exists>c t. fst (GetResidualCostSSE2 ex_env 0 (ex_mem 0 14 [3, 0, 0, 0, 0, 0, 0, 0, 0, 0, 0, 0, 0, 0, 1, 0])) =
      Inr (c + level_cost ex_env (m_res (ex_mem 0 14 [3, 0, 0, 0, 0, 0, 0, 0, 0, 0, 0, 0, 0, 0, 1, 0])) t 14 + 85)) \<and>
   (\<exists>c t. fst (GetResidualCostSSE2 ex_env 0 (ex_mem 0 15 [3, 0, 0, 0, 0, 0, 0, 0, 0, 0, 0, 0, 0, 0, 0, 1])) =
      Inr (c + level_cost ex_env (m_res (ex_mem 0 15 [3, 0, 0, 0, 0, 0, 0, 0, 0, 0, 0, 0, 0, 0, 0, 1])) t 15 + 0))"
proof -
  let ?m = "ex_mem 0 14 [3, 0, 0, 0, 0, 0, 0, 0, 0, 0, 0, 0, 0, 0, 1, 0]"
  let ?n = "ex_mem 0 15 [3, 0, 0, 0, 0, 0, 0, 0, 0, 0, 0, 0, 0, 0, 0, 1]"
  have hm: "length (res_coeffs (m_res ?m)) = 16" "0 \<le> res_first (m_res ?m)"
    "res_first (m_res ?m) \<le> res_last (m_res ?m)" "res_last (m_res ?m) \<le> 15"
    "res_coeffs (m_res ?m) ! nat (res_last (m_res ?m)) \<noteq> 0"
    by (simp_all add: ex_mem_def)
  have hn: "length (res_coeffs (m_res ?n)) = 16" "0 \<le> res_first (m_res ?n)"
    "res_first (m_res ?n) \<le> res_last (m_res ?n)" "res_last (m_res ?n) \<le> 15"
    "res_coeffs (m_res ?n) ! nat (res_last (m_res ?n)) \<noteq> 0"
    by (simp_all add: ex_mem_def)
  have lm: "res_last (m_res ?m) = 14" and ln: "res_last (m_res ?n) = 15"
    by (simp_all add: ex_mem_def)
  have e: "VP8BitCost ex_env 0 (uint (res_prob (m_res ?m) (band ex_env (14 + 1))
              (min (abs_coeff (m_res ?m) 14) 2) 0)) = 85"
    by code_simp
  have vm: "fst (GetResidualCostSSE2 ex_env 0 ?m) = Inr 69393" by code_simp
  have vn: "fst (GetResidualCostSSE2 ex_env 0 ?n) = Inr 76308" by code_simp
  from GetResidualCostSSE2_end_term [OF hm, of ex_env 0]
  have 1: "\<exists>c t. fst (GetResidualCostSSE2 ex_env 0 ?m) = Inr (c + level_cost ex_env (m_res ?m) t 14 + 85)"
    unfolding lm using e by auto
  from GetResidualCostSSE2_end_term [OF hn, of ex_env 0]
  have 2: "\<exists>c t. fst (GetResidualCostSSE2 ex_env 0 ?n) = Inr (c + level_cost ex_env (m_res ?n) t 15 + 0)"
    unfolding ln by auto
  from vm vn 1 2 show ?thesis by (intro conjI)
qed

text \<open>
  Claim C6 fails for positions whose band is not the position itself. With the band table
  of the format, position 4 is in band 6: for \<open>first = 4\<close> and an empty block the code
  returns the cost for \<open>prob[4][0]\<close>, which is 116 on the example tables, and not the cost for
  \<open>prob[6][0]\<close>, the entry of the band of \<open>first\<close>, which is 96.
\<close>

theorem prob_row_counterexample:
  "fst (GetResidualCostSSE2 ex_env 0 (ex_mem 4 (- 1) [0, 0, 0, 0, 0, 0, 0, 0, 0, 0, 0, 0, 0, 0, 0, 0])) = Inr 116
   \<and> band ex_env (res_first (m_res (ex_mem 4 (- 1) [0, 0, 0, 0, 0, 0, 0, 0, 0, 0, 0, 0, 0, 0, 0, 0]))) = 6
   \<and> spec_empty_cost ex_env (m_res (ex_mem 4 (- 1) [0, 0, 0, 0, 0, 0, 0, 0, 0, 0, 0, 0, 0, 0, 0, 0])) 0 = 96"
  by code_simp

text \<open>
  Claim C6, as amended. For every value of \<open>first\<close>, the probability entry used for the cost
  of an empty block (step 3) and for the base cost (step 2) is \<open>prob[first][ctx0][0]\<close>: the
  row is selected by the position \<open>first\<close> itself (line 53). Whenever the band of \<open>first\<close>
  is \<open>first\<close>, as it is for 0 and 1, this is the entry of the band of \<open>first\<close> and of the
  context \<open>ctx0\<close>, so that the two costs are those of the specification.
\<close>

theorem prob_row_of_first:
  "(res_last (m_res m) < 0 \<longrightarrow>
      fst (GetResidualCostSSE2 T ctx0 m) =
        Inr (VP8BitCost T 0 (uint (res_prob (m_res m) (res_first (m_res m)) ctx0 0)))) \<and>
   (0 \<le> res_last (m_res m) \<longrightarrow>
      fst (GetResidualCostSSE2 T ctx0 m) =
        (case cost_loop T (precompute m) (res_first (m_res m)) 0
                (res_cost (m_res m) (res_first (m_res m)) ctx0) of
           Inl e \<Rightarrow> Inl e
         | Inr (n, c, t) \<Rightarrow>
            (case last_coeff_cost T (precompute m) n c t of
               Inl e \<Rightarrow> Inl e
             | Inr v \<Rightarrow>
                 Inr ((if ctx0 = 0
                       then VP8BitCost T 1 (uint (res_prob (m_res m) (res_first (m_res m)) ctx0 0))
                       else 0) + v)))) \<and>
   (band T (res_first (m_res m)) = res_first (m_res m) \<longrightarrow>
      VP8BitCost T 0 (uint (res_prob (m_res m) (res_first (m_res m)) ctx0 0)) =
        spec_empty_cost T (m_res m) ctx0 \<and>
      (if ctx0 = 0 then VP8BitCost T 1 (uint (res_prob (m_res m) (res_first (m_res m)) ctx0 0)) else 0) =
        spec_base_cost T (m_res m) ctx0)"
proof (intro conjI impI)
  assume "res_last (m_res m) < 0"
  then show "fst (GetResidualCostSSE2 T ctx0 m) =
      Inr (VP8BitCost T 0 (uint (res_prob (m_res m) (res_first (m_res m)) ctx0 0)))"
    by (simp add: GetResidualCostSSE2_def Let_def)
next
  let ?b = "if ctx0 = 0 then VP8BitCost T 1 (uint (res_prob (m_res m) (res_first (m_res m)) ctx0 0)) else 0"
  assume "0 \<le> res_last (m_res m)"
  then have "fst (GetResidualCostSSE2 T ctx0 m) =
     (case cost_loop T (precompute m) (res_first (m_res m)) (?b + 0)
            (res_cost (m_res m) (res_first (m_res m)) ctx0) of
        Inl e \<Rightarrow> Inl e
      | Inr (n, c, t) \<Rightarrow> last_coeff_cost T (precompute m) n c t)"
    by (simp add: GetResidualCostSSE2_def Let_def)
  then show "fst (GetResidualCostSSE2 T ctx0 m) =
        (case cost_loop T (precompute m) (res_first (m_res m)) 0
                (res_cost (m_res m) (res_first (m_res m)) ctx0) of
           Inl e \<Rightarrow> Inl e
         | Inr (n, c, t) \<Rightarrow>
            (case last_coeff_cost T (precompute m) n c t of
               Inl e \<Rightarrow> Inl e
             | Inr v \<Rightarrow> Inr (?b + v)))"
    unfolding cost_loop_add
    by (auto simp add: last_coeff_cost_add split: sum.splits)
next
  assume "band T (res_first (m_res m)) = res_first (m_res m)"
  then show "VP8BitCost T 0 (uint (res_prob (m_res m) (res_first (m_res m)) ctx0 0)) =
        spec_empty_cost T (m_res m) ctx0"
    by (simp add: spec_empty_cost_def)
next
  assume "band T (res_first (m_res m)) = res_first (m_res m)"
  then show "(if ctx0 = 0 then VP8BitCost T 1 (uint (res_prob (m_res m) (res_first (m_res m)) ctx0 0)) else 0) =
        spec_base_cost T (m_res m) ctx0"
    by (simp add: spec_base_cost_def)
qed

text \<open>
  The theorem at three inputs: an empty block with \<open>first = 4\<close>, where the cost 116 is the
  one of \<open>prob[4][0]\<close>; an empty block with \<open>first = 1\<close>, where the cost 144 is also the one
  of the band; and the block \<open>[0, 2, - 1, 0, 70, 0, ...]\<close> with \<open>first = 1\<close>, \<open>last = 4\<close> and
  \<open>ctx0 = 0\<close>, whose cost 12667 is the base cost 110 of \<open>prob[1][0]\<close> plus the 12557 that
  lines 86-106 add up from 0.
\<close>

theorem prob_row_of_first_witness:
  "fst (GetResidualCostSSE2 ex_env 0 (ex_mem 4 (- 1) [0, 0, 0, 0, 0, 0, 0, 0, 0, 0, 0, 0, 0, 0, 0, 0])) =
     Inr (VP8BitCost ex_env 0 (uint (ex_prob 4 0 0))) \<and>
   VP8BitCost ex_env 0 (uint (ex_prob 4 0 0)) = 116 \<and>
   fst (GetResidualCostSSE2 ex_env 2 (ex_mem 1 (- 1) [0, 0, 0, 0, 0, 0, 0, 0, 0, 0, 0, 0, 0, 0, 0, 0])) =
     Inr (spec_empty_cost ex_env (m_res (ex_mem 1 (- 1) [0, 0, 0, 0, 0, 0, 0, 0, 0, 0, 0, 0, 0, 0, 0, 0])) 2) \<and>
   spec_empty_cost ex_env (m_res (ex_mem 1 (- 1) [0, 0, 0, 0, 0, 0, 0, 0, 0, 0, 0, 0, 0, 0, 0, 0])) 2 = 144 \<and>
   spec_base_cost ex_env (m_res (ex_mem 1 4 [0, 2, - 1, 0, 70, 0, 0, 0, 0, 0, 0, 0, 0, 0, 0, 0])) 0 =
     VP8BitCost ex_env 1 (uint (ex_prob 1 0 0)) \<and>
   VP8BitCost ex_env 1 (uint (ex_prob 1 0 0)) = 110 \<and>
   Inr 12667 =
     (case cost_loop ex_env (precompute (ex_mem 1 4 [0, 2, - 1, 0, 70, 0, 0, 0, 0, 0, 0, 0, 0, 0, 0, 0])) 1 0
             (ex_cost 1 0) of
        Inl e \<Rightarrow> Inl e
      | Inr (n, c, t) \<Rightarrow>
         (case last_coeff_cost ex_env
                 (precompute (ex_mem 1 4 [0, 2, - 1, 0, 70, 0, 0, 0, 0, 0, 0, 0, 0, 0, 0, 0])) n c t of
            Inl e \<Rightarrow> Inl e
          | Inr v \<Rightarrow> Inr (VP8BitCost ex_env 1 (uint (ex_prob 1 0 0)) + v)))"
proof -
  let ?a = "ex_mem 4 (- 1) [0, 0, 0, 0, 0, 0, 0, 0, 0, 0, 0, 0, 0, 0, 0, 0]"
  let ?e = "ex_mem 1 (- 1) [0, 0, 0, 0, 0, 0, 0, 0, 0, 0, 0, 0, 0, 0, 0, 0]"
  let ?m = "ex_mem 1 4 [0, 2, - 1, 0, 70, 0, 0, 0, 0, 0, 0, 0, 0, 0, 0, 0]"
  have fa: "res_last (m_res ?a) < 0" "res_first (m_res ?a) = 4" "res_prob (m_res ?a) = ex_prob"
    and fe: "res_last (m_res ?e) < 0" "res_first (m_res ?e) = 1" "res_prob (m_res ?e) = ex_prob"
    and fm: "0 \<le> res_last (m_res ?m)" "res_first (m_res ?m) = 1" "res_prob (m_res ?m) = ex_prob"
      "res_cost (m_res ?m) = ex_cost"
    by (simp_all add: ex_mem_def)
  have be: "band ex_env (res_first (m_res ?e)) = res_first (m_res ?e)"
    and bm: "band ex_env (res_first (m_res ?m)) = res_first (m_res ?m)"
    by code_simp+
  have v: "VP8BitCost ex_env 0 (uint (ex_prob 4 0 0)) = 116"
    "spec_empty_cost ex_env (m_res ?e) 2 = 144"
    "VP8BitCost ex_env 1 (uint (ex_prob 1 0 0)) = 110"
    by code_simp+
  have g: "fst (GetResidualCostSSE2 ex_env 0 ?m) = Inr 12667" by code_simp
  have 1: "fst (GetResidualCostSSE2 ex_env 0 ?a) = Inr (VP8BitCost ex_env 0 (uint (ex_prob 4 0 0)))"
    using prob_row_of_first [of ?a ex_env 0] fa(1) unfolding fa(2,3) by blast
  have 2: "fst (GetResidualCostSSE2 ex_env 2 ?e) = Inr (spec_empty_cost ex_env (m_res ?e) 2)"
    using prob_row_of_first [of ?e ex_env 2] fe(1) be by simp
  have 3: "spec_base_cost ex_env (m_res ?m) 0 = VP8BitCost ex_env 1 (uint (ex_prob 1 0 0))"
    using prob_row_of_first [of ?m ex_env 0] bm unfolding fm(2,3) by simp
  have 4: "fst (GetResidualCostSSE2 ex_env 0 ?m) =
     (case cost_loop ex_env (precompute ?m) 1 0 (ex_cost 1 0) of
        Inl e \<Rightarrow> Inl e
      | Inr (n, c, t) \<Rightarrow>
         (case last_coeff_cost ex_env (precompute ?m) n c t of
            Inl e \<Rightarrow> Inl e
          | Inr v \<Rightarrow> Inr ((if (0 :: int) = 0 then VP8BitCost ex_env 1 (uint (ex_prob 1 0 0)) else 0) + v)))"
    using prob_row_of_first [of ?m ex_env 0] fm(1) unfolding fm(2,3,4) by blast
  have 5: "Inr 12667 =
     (case cost_loop ex_env (precompute ?m) 1 0 (ex_cost 1 0) of
        Inl e \<Rightarrow> Inl e
      | Inr (n, c, t) \<Rightarrow>
         (case last_coeff_cost ex_env (precompute ?m) n c t of
            Inl e \<Rightarrow> Inl e
          | Inr v \<Rightarrow> Inr (VP8BitCost ex_env 1 (uint (ex_prob 1 0 0)) + v)))"
    using 4 unfolding g by simp
  from 1 v(1) 2 v(2) 3 v(3) 5 show ?thesis by (intro conjI)
qed

lemma levels_split:
  assumes "f \<le> l"
  shows "(\<Sum>k\<leftarrow>[f..l]. level_cost T res (if k = f then t0 else next_row T res k) k) =
         level_cost T res t0 f + (\<Sum>k\<leftarrow>[f + 1..l]. level_cost T res (next_row T res k) k)"
proof -
  have "(\<Sum>k\<leftarrow>[f + 1..l]. level_cost T res (if k = f then t0 else next_row T res k) k) =
        (\<Sum>k\<leftarrow>[f + 1..l]. level_cost T res (next_row T res k) k)"
    by (intro arg_cong [where f = sum_list] map_cong) auto
  then show ?thesis
    using assms by (simp add: upto_rec1 [of f l])
qed

text \<open>
  Claim C7 fails because the row of the cost table used at \<open>first\<close> is the row of the
  context \<open>ctx0\<close>: on the example tables, \<open>cost(0) - cost(1) = 12667 - 12657 = 10\<close>, and the
  cost of the "is-nonzero" bit is 110.
\<close>

theorem ctx0_difference_counterexample:
  "fst (GetResidualCostSSE2 ex_env 0 (ex_mem 1 4 [0, 2, - 1, 0, 70, 0, 0, 0, 0, 0, 0, 0, 0, 0, 0, 0])) = Inr 12667
   \<and> fst (GetResidualCostSSE2 ex_env 1 (ex_mem 1 4 [0, 2, - 1, 0, 70, 0, 0, 0, 0, 0, 0, 0, 0, 0, 0, 0])) = Inr 12657
   \<and> VP8BitCost ex_env 1 (uint (res_prob (m_res (ex_mem 1 4 [0, 2, - 1, 0, 70, 0, 0, 0, 0, 0, 0, 0, 0, 0, 0, 0]))
        (band ex_env (res_first (m_res (ex_mem 1 4 [0, 2, - 1, 0, 70, 0, 0, 0, 0, 0, 0, 0, 0, 0, 0, 0])))) 0 0)) = 110"
  by code_simp

text \<open>
  Claim C7, as amended. For a block of 16 coefficients with \<open>0 \<le> first \<le> last \<le> 15\<close>, a
  non-zero coefficient at \<open>last\<close> and the band of \<open>first\<close> equal to \<open>first\<close> (as for 0 and
  1), and a context \<open>c\<close> other than 0, both calls return, and \<open>cost(0) - cost(c)\<close> is the
  cost of the "is-nonzero" bit at the band of \<open>first\<close> and context 0, plus the difference of
  the two table entries read at \<open>first\<close>: the entry of the row of context 0 minus the entry
  of the row of context \<open>c\<close>, both at the clamped level of the coefficient at \<open>first\<close>.
\<close>

theorem ctx0_difference:
  assumes "length (res_coeffs (m_res m)) = 16"
    and "0 \<le> res_first (m_res m)" and "res_first (m_res m) \<le> res_last (m_res m)"
    and "res_last (m_res m) \<le> 15"
    and "res_coeffs (m_res m) ! nat (res_last (m_res m)) \<noteq> 0"
    and "band T (res_first (m_res m)) = res_first (m_res m)"
    and "c \<noteq> 0"
  shows "\<exists>a b. fst (GetResidualCostSSE2 T 0 m) = Inr a \<and> fst (GetResidualCostSSE2 T c m) = Inr b \<and>
    a - b = VP8BitCost T 1 (uint (res_prob (m_res m) (band T (res_first (m_res m))) 0 0))
          + (uint (res_cost (m_res m) (band T (res_first (m_res m))) 0
                     (min (abs_coeff (m_res m) (res_first (m_res m))) 67))
             - uint (res_cost (m_res m) (band T (res_first (m_res m))) c
                     (min (abs_coeff (m_res m) (res_first (m_res m))) 67)))"
  unfolding GetResidualCostSSE2_value [OF assms(1-5)] levels_split [OF assms(3)]
  using assms(7) by (simp add: assms(6) level_cost_def)

theorem ctx0_difference_witness:
  "fst (GetResidualCostSSE2 ex_env 0 (ex_mem 1 4 [0, 2, - 1, 0, 70, 0, 0, 0, 0, 0, 0, 0, 0, 0, 0, 0])) = Inr 12667
   \<and> fst (GetResidualCostSSE2 ex_env 2 (ex_mem 1 4 [0, 2, - 1, 0, 70, 0, 0, 0, 0, 0, 0, 0, 0, 0, 0, 0])) = Inr 12757
   \<and> (12667 :: int) - 12757 = 110 + (1002 - 1202)"
proof -
  let ?m = "ex_mem 1 4 [0, 2, - 1, 0, 70, 0, 0, 0, 0, 0, 0, 0, 0, 0, 0, 0]"
  have h: "length (res_coeffs (m_res ?m)) = 16" "0 \<le> res_first (m_res ?m)"
    "res_first (m_res ?m) \<le> res_last (m_res ?m)" "res_last (m_res ?m) \<le> 15"
    "res_coeffs (m_res ?m) ! nat (res_last (m_res ?m)) \<noteq> 0"
    by (simp_all add: ex_mem_def)
  have b: "band ex_env (res_first (m_res ?m)) = res_first (m_res ?m)" by code_simp
  have c: "(2 :: int) \<noteq> 0" by simp
  have v: "VP8BitCost ex_env 1 (uint (res_prob (m_res ?m) (band ex_env (res_first (m_res ?m))) 0 0)) = 110"
    "uint (res_cost (m_res ?m) (band ex_env (res_first (m_res ?m))) 0
        (min (abs_coeff (m_res ?m) (res_first (m_res ?m))) 67)) = 1002"
    "uint (res_cost (m_res ?m) (band ex_env (res_first (m_res ?m))) 2
        (min (abs_coeff (m_res ?m) (res_first (m_res ?m))) 67)) = 1202"
    by code_simp+
  have g: "fst (GetResidualCostSSE2 ex_env 0 ?m) = Inr 12667"
    "fst (GetResidualCostSSE2 ex_env 2 ?m) = Inr 12757"
    by code_simp+
  from ctx0_difference [OF h b c] obtain a d where
    "fst (GetResidualCostSSE2 ex_env 0 ?m) = Inr a" "fst (GetResidualCostSSE2 ex_env 2 ?m) = Inr d"
    "a - d = 110 + (1002 - 1202)"
    unfolding v by blast
  with g show ?thesis by simp
qed

section \<open>Monotonicity in one coefficient\<close>

lemma reverse_scan_cong:
  assumes "\<forall>i<n. cs1 ! i = 0 \<longleftrightarrow> cs2 ! i = 0"
  shows "reverse_scan cs1 n = reverse_scan cs2 n"
  using assms by (induction n) simp_all

lemma abs_sint16_le: "\<bar>sint (w :: 16 word)\<bar> \<le> 32768"
  using sint_ge [of w] sint_lt [of w] by simp

lemma level_cost_mono:
  assumes "monotone_tables T r"
    and "abs_coeff r1 j \<le> abs_coeff r2 j" and "abs_coeff r2 j \<le> 32768"
  shows "level_cost T r1 (res_cost r n c) j \<le> level_cost T r2 (res_cost r n c) j"
proof -
  have a0: "0 \<le> abs_coeff r1 j" by (simp add: abs_coeff_def)
  have "VP8LevelFixedCosts T (abs_coeff r1 j) \<le> VP8LevelFixedCosts T (abs_coeff r2 j)"
    using assms a0 unfolding monotone_tables_def by blast
  moreover have "res_cost r n c (min (abs_coeff r1 j) 67) \<le> res_cost r n c (min (abs_coeff r2 j) 67)"
  proof -
    have "0 \<le> min (abs_coeff r1 j) 67" "min (abs_coeff r1 j) 67 \<le> min (abs_coeff r2 j) 67"
      "min (abs_coeff r2 j) 67 \<le> 67"
      using a0 assms(2) by simp_all
    then show ?thesis using assms(1) unfolding monotone_tables_def by blast
  qed
  ultimately show ?thesis
    by (simp add: level_cost_def word_le_def add_mono)
qed


text \<open>
  Claim C8 fails in two ways. With a cost table whose rows never fall with the level, a
  larger coefficient can move the next position to a cheaper context row: the blocks
  \<open>[1, 1, 0, ...]\<close> and \<open>[2, 1, 0, ...]\<close> (both with \<open>last = 1\<close>) cost 337 and 238. And
  within one context bucket, a row that falls with the level makes the larger coefficient
  cheaper: \<open>[2, 0, ...]\<close> and \<open>[3, 0, ...]\<close> cost 346 and 297.
\<close>

theorem cost_monotone_counterexample:
  "map_sum id res_last (SetResidualCoeffsSSE2 [1, 1, 0, 0, 0, 0, 0, 0, 0, 0, 0, 0, 0, 0, 0, 0]
      (m_res (ex_mem_cost ex_cost_by_ctx 0 0 []))) = Inr 1 \<and>
   map_sum id res_last (SetResidualCoeffsSSE2 [2, 1, 0, 0, 0, 0, 0, 0, 0, 0, 0, 0, 0, 0, 0, 0]
      (m_res (ex_mem_cost ex_cost_by_ctx 0 0 []))) = Inr 1 \<and>
   fst (GetResidualCostSSE2 ex_env 0
      (ex_mem_cost ex_cost_by_ctx 0 1 [1, 1, 0, 0, 0, 0, 0, 0, 0, 0, 0, 0, 0, 0, 0, 0])) = Inr 337 \<and>
   fst (GetResidualCostSSE2 ex_env 0
      (ex_mem_cost ex_cost_by_ctx 0 1 [2, 1, 0, 0, 0, 0, 0, 0, 0, 0, 0, 0, 0, 0, 0, 0])) = Inr 238 \<and>
   fst (GetResidualCostSSE2 ex_env 0
      (ex_mem_cost ex_cost_falling 0 0 [2, 0, 0, 0, 0, 0, 0, 0, 0, 0, 0, 0, 0, 0, 0, 0])) = Inr 346 \<and>
   fst (GetResidualCostSSE2 ex_env 0
      (ex_mem_cost ex_cost_falling 0 0 [3, 0, 0, 0, 0, 0, 0, 0, 0, 0, 0, 0, 0, 0, 0, 0])) = Inr 297"
  by code_simp

text \<open>
  Claim C8, as amended. Take two blocks of 16 coefficients that differ at one position \<open>k\<close>
  only, where the second has the larger magnitude and both magnitudes are in the same
  context bucket; let the scan detector set \<open>last\<close> for each, from the same record, and
  let \<open>first\<close> be at least 0 and at most that \<open>last\<close>. Then \<open>last\<close> is the same for both,
  and if the fixed table and every row of the cost table never fall with the level, both
  calls of \<^verbatim>\<open>GetResidualCostSSE2\<close> return and the second block does not cost less.
\<close>

theorem cost_monotone_same_bucket:
  assumes len: "length cs1 = 16" "length cs2 = 16"
    and same: "\<forall>i<16. i \<noteq> k \<longrightarrow> cs2 ! i = cs1 ! i"
    and le: "\<bar>sint (cs1 ! k)\<bar> \<le> \<bar>sint (cs2 ! k)\<bar>"
    and bucket: "min \<bar>sint (cs1 ! k)\<bar> 2 = min \<bar>sint (cs2 ! k)\<bar> 2"
    and set1: "SetResidualCoeffsSSE2 cs1 r = Inr (m_res m1)"
    and set2: "SetResidualCoeffsSSE2 cs2 r = Inr (m_res m2)"
    and first: "0 \<le> res_first r" "res_first r \<le> res_last (m_res m1)"
    and mono: "monotone_tables T r"
  shows "res_last (m_res m2) = res_last (m_res m1) \<and>
         (\<exists>a b. fst (GetResidualCostSSE2 T ctx0 m1) = Inr a \<and>
                fst (GetResidualCostSSE2 T ctx0 m2) = Inr b \<and> a \<le> b)"
proof -
  let ?r1 = "m_res m1" and ?r2 = "m_res m2"
  have r1: "?r1 = r\<lparr>res_last := scalar_detectLast cs1, res_coeffs := cs1\<rparr>"
    using len(1) set1 by (rule SetResidualCoeffsSSE2_Inr)
  have r2: "?r2 = r\<lparr>res_last := scalar_detectLast cs2, res_coeffs := cs2\<rparr>"
    using len(2) set2 by (rule SetResidualCoeffsSSE2_Inr)
  have bucket_all: "min \<bar>sint (cs1 ! i)\<bar> 2 = min \<bar>sint (cs2 ! i)\<bar> 2" if "i < 16" for i
    using that same bucket by (cases "i = k") simp_all
  have le_all: "\<bar>sint (cs1 ! i)\<bar> \<le> \<bar>sint (cs2 ! i)\<bar>" if "i < 16" for i
    using that same le by (cases "i = k") simp_all
  have zero: "cs1 ! i = 0 \<longleftrightarrow> cs2 ! i = 0" if "i < 16" for i
  proof -
    have "\<bar>sint (cs1 ! i)\<bar> = 0 \<longleftrightarrow> \<bar>sint (cs2 ! i)\<bar> = 0"
      using bucket_all [OF that] by (auto simp add: min_def split: if_splits)
    then show ?thesis by (simp add: signed_eq_0_iff)
  qed
  have last: "scalar_detectLast cs2 = scalar_detectLast cs1"
    unfolding scalar_detectLast_def
    by (rule reverse_scan_cong [symmetric]) (simp add: zero)
  let ?f = "res_first r" and ?l = "scalar_detectLast cs1"
  have fl: "?f \<le> ?l" using first(2) by (simp add: r1)
  then have l0: "0 \<le> ?l" using first(1) by simp
  have l15: "?l \<le> 15" and nz1: "cs1 ! nat ?l \<noteq> 0"
    using reverse_scan_cases [of cs1 16] l0 unfolding scalar_detectLast_def by auto
  have nz2: "cs2 ! nat ?l \<noteq> 0"
    using nz1 zero [of "nat ?l"] l0 l15 by simp
  have f1: "res_first ?r1 = ?f" "res_last ?r1 = ?l" "res_coeffs ?r1 = cs1"
    "res_prob ?r1 = res_prob r" "res_cost ?r1 = res_cost r"
    by (simp_all add: r1)
  have f2: "res_first ?r2 = ?f" "res_last ?r2 = ?l" "res_coeffs ?r2 = cs2"
    "res_prob ?r2 = res_prob r" "res_cost ?r2 = res_cost r"
    by (simp_all add: r2 last)
  have abs1: "abs_coeff ?r1 j = \<bar>sint (cs1 ! nat j)\<bar>" for j by (simp add: abs_coeff_def f1)
  have abs2: "abs_coeff ?r2 j = \<bar>sint (cs2 ! nat j)\<bar>" for j by (simp add: abs_coeff_def f2)
  have ctx_eq: "min (abs_coeff ?r1 j) 2 = min (abs_coeff ?r2 j) 2" if "0 \<le> j" "j \<le> 15" for j
    unfolding abs1 abs2 using that by (intro bucket_all) simp
  have abs_le: "abs_coeff ?r1 j \<le> abs_coeff ?r2 j" if "0 \<le> j" "j \<le> 15" for j
    unfolding abs1 abs2 using that by (intro le_all) simp
  have row_eq: "next_row T ?r1 j = next_row T ?r2 j" if "1 \<le> j" "j \<le> 16" for j
    using ctx_eq [of "j - 1"] that by (simp add: next_row_def f1 f2)
  have v1: "fst (GetResidualCostSSE2 T ctx0 m1) =
     Inr ((if ctx0 = 0 then VP8BitCost T 1 (uint (res_prob r ?f ctx0 0)) else 0) +
          (\<Sum>j\<leftarrow>[?f..?l]. level_cost T ?r1 (if j = ?f then res_cost r ?f ctx0 else next_row T ?r1 j) j) +
          (if ?l < 15
           then VP8BitCost T 0 (uint (res_prob r (band T (?l + 1)) (min (abs_coeff ?r1 ?l) 2) 0))
           else 0))"
    by (rule GetResidualCostSSE2_value [of m1 T ctx0, unfolded f1, OF len(1) first(1) fl l15 nz1])
  have v2: "fst (GetResidualCostSSE2 T ctx0 m2) =
     Inr ((if ctx0 = 0 then VP8BitCost T 1 (uint (res_prob r ?f ctx0 0)) else 0) +
          (\<Sum>j\<leftarrow>[?f..?l]. level_cost T ?r2 (if j = ?f then res_cost r ?f ctx0 else next_row T ?r2 j) j) +
          (if ?l < 15
           then VP8BitCost T 0 (uint (res_prob r (band T (?l + 1)) (min (abs_coeff ?r2 ?l) 2) 0))
           else 0))"
    by (rule GetResidualCostSSE2_value [of m2 T ctx0, unfolded f2, OF len(2) first(1) fl l15 nz2])
  have sum: "(\<Sum>j\<leftarrow>[?f..?l]. level_cost T ?r1 (if j = ?f then res_cost r ?f ctx0 else next_row T ?r1 j) j)
          \<le> (\<Sum>j\<leftarrow>[?f..?l]. level_cost T ?r2 (if j = ?f then res_cost r ?f ctx0 else next_row T ?r2 j) j)"
  proof (rule sum_list_mono)
    fix j assume "j \<in> set [?f..?l]"
    then have j: "0 \<le> j" "j \<le> 15" "?f \<le> j" using first(1) l15 by simp_all
    have b: "abs_coeff ?r2 j \<le> 32768" unfolding abs2 by (rule abs_sint16_le)
    show "level_cost T ?r1 (if j = ?f then res_cost r ?f ctx0 else next_row T ?r1 j) j
          \<le> level_cost T ?r2 (if j = ?f then res_cost r ?f ctx0 else next_row T ?r2 j) j"
    proof (cases "j = ?f")
      case True
      then show ?thesis
        using level_cost_mono [OF mono abs_le [OF j(1,2)] b, of ?f ctx0] by simp
    next
      case False
      then have "1 \<le> j" using j first(1) by simp
      then have e: "next_row T ?r1 j = next_row T ?r2 j" using j(2) by (intro row_eq) simp_all
      have "next_row T ?r2 j = res_cost r (band T j) (min (abs_coeff ?r2 (j - 1)) 2)"
        by (simp add: next_row_def f2)
      then show ?thesis
        using False e level_cost_mono [OF mono abs_le [OF j(1,2)] b, of "band T j" "min (abs_coeff ?r2 (j - 1)) 2"]
        by simp
    qed
  qed
  have "res_last ?r2 = res_last ?r1" by (simp add: f1 f2)
  moreover have "\<exists>a b. fst (GetResidualCostSSE2 T ctx0 m1) = Inr a \<and>
                fst (GetResidualCostSSE2 T ctx0 m2) = Inr b \<and> a \<le> b"
    unfolding v1 v2 using sum ctx_eq [OF l0 l15] by simp
  ultimately show ?thesis by (rule conjI)
qed


lemma ex_tables_monotone: "monotone_tables ex_env (m_res (ex_mem_cost ex_cost_rising f l cs))"
proof -
  have w: "(word_of_int a :: 16 word) \<le> word_of_int b" if "0 \<le> a" "a \<le> b" "b \<le> 32768" for a b :: int
  proof -
    have "take_bit 16 a = a" "take_bit 16 b = b"
      using that by (simp_all add: take_bit_int_eq_self)
    then show ?thesis using that by (simp add: word_le_def uint_word_of_int_eq)
  qed
  show ?thesis
    unfolding monotone_tables_def
    by (auto simp add: ex_env_def ex_mem_cost_def ex_cost_rising_def intro!: w)
qed

theorem cost_monotone_same_bucket_witness:
  "fst (GetResidualCostSSE2 ex_env 0
      (ex_mem_cost ex_cost_rising 0 2 [2, 0, - 3, 0, 0, 0, 0, 0, 0, 0, 0, 0, 0, 0, 0, 0])) = Inr 234 \<and>
   fst (GetResidualCostSSE2 ex_env 0
      (ex_mem_cost ex_cost_rising 0 2 [- 90, 0, - 3, 0, 0, 0, 0, 0, 0, 0, 0, 0, 0, 0, 0, 0])) = Inr 387 \<and>
   (\<exists>a b. fst (GetResidualCostSSE2 ex_env 0
      (ex_mem_cost ex_cost_rising 0 2 [2, 0, - 3, 0, 0, 0, 0, 0, 0, 0, 0, 0, 0, 0, 0, 0])) = Inr a \<and>
     fst (GetResidualCostSSE2 ex_env 0
      (ex_mem_cost ex_cost_rising 0 2 [- 90, 0, - 3, 0, 0, 0, 0, 0, 0, 0, 0, 0, 0, 0, 0, 0])) = Inr b \<and>
     a \<le> b)"
proof -
  let ?cs1 = "[2, 0, - 3, 0, 0, 0, 0, 0, 0, 0, 0, 0, 0, 0, 0, 0] :: 16 word list"
  let ?cs2 = "[- 90, 0, - 3, 0, 0, 0, 0, 0, 0, 0, 0, 0, 0, 0, 0, 0] :: 16 word list"
  let ?r = "m_res (ex_mem_cost ex_cost_rising 0 9 [])"
  let ?m1 = "ex_mem_cost ex_cost_rising 0 2 ?cs1"
  let ?m2 = "ex_mem_cost ex_cost_rising 0 2 ?cs2"
  have len: "length ?cs1 = 16" "length ?cs2 = 16" by simp_all
  have same: "\<forall>i<16. i \<noteq> 0 \<longrightarrow> ?cs2 ! i = ?cs1 ! i"
    by (auto simp add: nth_Cons')
  have le: "\<bar>sint (?cs1 ! 0)\<bar> \<le> \<bar>sint (?cs2 ! 0)\<bar>" by simp
  have bucket: "min \<bar>sint (?cs1 ! 0)\<bar> 2 = min \<bar>sint (?cs2 ! 0)\<bar> 2" by simp
  have d: "scalar_detectLast ?cs1 = 2" "scalar_detectLast ?cs2 = 2" by code_simp+
  have set1: "SetResidualCoeffsSSE2 ?cs1 ?r = Inr (m_res ?m1)"
    by (subst SetResidualCoeffsSSE2_eq) (simp_all add: d ex_mem_cost_def)
  have set2: "SetResidualCoeffsSSE2 ?cs2 ?r = Inr (m_res ?m2)"
    by (subst SetResidualCoeffsSSE2_eq) (simp_all add: d ex_mem_cost_def)
  have first: "0 \<le> res_first ?r" "res_first ?r \<le> res_last (m_res ?m1)"
    by (simp_all add: ex_mem_cost_def)
  have mono: "monotone_tables ex_env ?r" by (rule ex_tables_monotone)
  have v: "fst (GetResidualCostSSE2 ex_env 0 ?m1) = Inr 234"
    "fst (GetResidualCostSSE2 ex_env 0 ?m2) = Inr 387"
    by code_simp+
  from cost_monotone_same_bucket [OF len same le bucket set1 set2 first mono, of 0] v
  show ?thesis by blast
qed

end
